theory Spec2Isabelle
  imports Complex_Main
begin

section \<open>Data model of the UdU' factorised covariance filter (UDFlt.cpp)\<close>

text \<open>
  The filter's \<open>Float\<close> is modelled by \<^typ>\<open>real\<close>: the comparisons that steer the
  control flow (\<open>alpha <= 0\<close>, \<open>e > 0\<close>, \<open>e == 0\<close>, \<open>rcond < rcondmin\<close>) are the
  source's, the arithmetic is exact. A \<open>FM::Vec\<close> is a list of reals, a \<open>FM::Matrix\<close> a list
  of rows. The source never checks an index; its documented precondition is size
  conformance, which the constructor establishes (\<open>conformant\<close> below).
\<close>

type_synonym Vec = "real list"
type_synonym Matrix = "real list list"

text \<open>\<open>M(i,j) = v\<close> on a dense matrix.\<close>

definition mat_set :: "Matrix \<Rightarrow> nat \<Rightarrow> nat \<Rightarrow> real \<Rightarrow> Matrix" where
  "mat_set M i j val = M[i := (M ! i)[j := val]]"

text \<open>The two failure kinds raised through \<open>Bayes_base::error\<close> (bayesFlt.cpp), with their
  description strings.\<close>

datatype error = Numeric_exception string | Logic_exception string

text \<open>
  The numeric toolkit (matSup) is not part of the sources: the reciprocal condition number
  estimate \<open>FM::UdUrcond\<close>, the in-place factorisation \<open>FM::UdUfactor (M, n)\<close> (new matrix
  and rcond), its two-matrix form \<open>FM::UdUfactor (Gz, Z)\<close> (\<open>UdUfactor_of\<close>: the factor of \<open>Z\<close> and rcond),
  the recomposition \<open>FM::UdUrecompose\<close> and the constant \<open>std::numeric_limits<Float>::max()\<close>
  are parameters of the model.
\<close>

record toolkit =
  UdUrcond :: "Matrix \<Rightarrow> nat \<Rightarrow> real"
  UdUfactor :: "Matrix \<Rightarrow> nat \<Rightarrow> Matrix \<times> real"
  UdUfactor_of :: "Matrix \<Rightarrow> Matrix \<times> real"
  UdUrecompose :: "Matrix \<Rightarrow> Matrix \<Rightarrow> Matrix"
  Float_max :: real

text \<open>The members of \<open>UD_scheme\<close> (with those inherited from \<open>Kalman_state_filter\<close>:
  \<open>x\<close>, \<open>X\<close> and the conditioning limit \<open>rclimit\<close>).\<close>

record UD_scheme =
  x :: Vec
  X :: Matrix
  rclimit :: real
  q_max :: nat
  UD :: Matrix
  s :: Vec
  Sd :: Vec
  d :: Vec
  dv :: Vec
  v :: Vec
  a :: Vec
  b :: Vec
  h1 :: Vec
  w :: Vec
  znorm :: Vec
  zpdecol :: Vec
  Gz :: Matrix
  GIHx :: Matrix
  last_z_size :: nat

text \<open>Size conformance as the constructor \<open>UD_scheme (x_size, q_maxsize, z_initialsize)\<close>
  sets it up; \<open>Expected_state\<close> rejects \<open>x_size < 1\<close>.\<close>

definition conformant :: "UD_scheme \<Rightarrow> bool" where
  "conformant st \<longleftrightarrow>
     (let n = length (x st); N = n + q_max st in
      1 \<le> n \<and> length (UD st) = n \<and> list_all (\<lambda>row. length row = N) (UD st) \<and>
      length (d st) = N \<and> length (dv st) = N \<and> length (v st) = N \<and>
      length (a st) = n \<and> length (b st) = n \<and> length (h1 st) = n \<and> length (w st) = n)"

subsection \<open>Conditioning Policy\<close>

text \<open>
  Modelled from the spec: \<open>Numerical_rcond::check_PSD\<close> is declared in bayesFlt.hpp, which is
  not among the sources. The spec (4.2): \<open>rcond == -1\<close> signals a negative-definite result
  (numeric failure, message attached); \<open>rcond\<close> in \<open>[0, threshold)\<close> is a failure;
  \<open>rcond >= threshold\<close> is accepted silently. The policy raises a numeric failure whenever
  the value is not acceptable.
\<close>

definition check_PSD :: "real \<Rightarrow> real \<Rightarrow> string \<Rightarrow> error + unit" where
  "check_PSD limit rcond error_description =
     (if rcond = - 1 then Inl (Numeric_exception error_description)
      else if rcond \<ge> limit then Inr ()
      else Inl (Numeric_exception error_description))"

subsection \<open>observeUD: Bierman's rank-one update of the factor\<close>

text \<open>The inner loop \<open>for (k = 0; k < j; ++k) a[j] += UD(k,j) * a[k]\<close>.\<close>

definition observeUD_a :: "Matrix \<Rightarrow> nat \<Rightarrow> Vec \<Rightarrow> Vec" where
  "observeUD_a UDm j av = fold (\<lambda>k av'. av'[j := av' ! j + UDm ! k ! j * av' ! k]) [0..<j] av"

text \<open>The body of the loop \<open>for (j = n-1; j >= 1; --j)\<close>: the inner loop on \<open>a[j]\<close>,
  then \<open>b[j] = UD(j,j) * a[j]\<close>. (The unsigned \<open>n-1\<close> does not wrap: a filter has at
  least one state.)\<close>

definition observeUD_b :: "Matrix \<Rightarrow> nat \<Rightarrow> Vec \<times> Vec \<Rightarrow> Vec \<times> Vec" where
  "observeUD_b UDm j ab =
     (case ab of (av, bv) \<Rightarrow>
        let av' = observeUD_a UDm j av in (av', bv[j := UDm ! j ! j * av' ! j]))"

text \<open>That loop followed by \<open>b[0] = UD(0,0) * a[0]\<close>: they leave \<open>a = U'h\<close> and
  \<open>b = DU'h\<close>.\<close>

definition observeUD_ab :: "Matrix \<Rightarrow> nat \<Rightarrow> Vec \<times> Vec \<Rightarrow> Vec \<times> Vec" where
  "observeUD_ab UDm n ab =
     (let (av, bv) = fold (observeUD_b UDm) (rev [1..<n]) ab
      in (av, bv[0 := UDm ! 0 ! 0 * av ! 0]))"

text \<open>The U modification \<open>for (i = 0; i < j; ++i)\<close> of column \<open>j\<close>, which also
  accumulates the unweighted gain \<open>b\<close>.\<close>

definition observeUD_U :: "nat \<Rightarrow> real \<Rightarrow> Matrix \<times> Vec \<Rightarrow> Matrix \<times> Vec" where
  "observeUD_U j lamda Ub =
     fold (\<lambda>i (UDm, bv). let UD_jm1 = UDm ! i ! j in
              (mat_set UDm i j (UD_jm1 + lamda * bv ! i), bv[i := bv ! i + bv ! j * UD_jm1]))
       [0..<j] Ub"

text \<open>
  The forward sweep \<open>for (j = 1; j < n; ++j)\<close>. The result is
  \<open>(ok, alpha, gamma, UD, b)\<close>; \<open>ok = False\<close> is the jump to \<open>alphaNotPD\<close>, taken with
  whatever has been written to \<open>alpha\<close>, \<open>UD\<close> and \<open>b\<close> so far.
\<close>

function observeUD_sweep ::
  "nat \<Rightarrow> Vec \<Rightarrow> nat \<Rightarrow> real \<Rightarrow> real \<Rightarrow> Matrix \<Rightarrow> Vec \<Rightarrow> bool \<times> real \<times> real \<times> Matrix \<times> Vec" where
  "observeUD_sweep n av j alpha gamma UDm bv =
     (if j < n then
        let alpha_jm1 = alpha;
            alpha' = alpha + bv ! j * av ! j;
            lamda = - av ! j * gamma
        in if alpha' \<le> 0 then (False, alpha', gamma, UDm, bv)
           else
             let gamma' = 1 / alpha';
                 UD1 = mat_set UDm j j (UDm ! j ! j * (alpha_jm1 * gamma'));
                 (UD2, bv2) = observeUD_U j lamda (UD1, bv)
             in observeUD_sweep n av (Suc j) alpha' gamma' UD2 bv2
      else (True, alpha, gamma, UDm, bv))"
  by pat_completeness auto
termination
  by (relation "measure (\<lambda>(n, av, j, alpha, gamma, UDm, bv). n - j)") auto

declare observeUD_sweep.simps [simp del]

text \<open>
  \<open>observeUD (gain, alpha, h, r)\<close>. The two reference parameters are returned: the result
  is \<open>(rcond, gain, alpha, state)\<close>. \<open>rcond = -1\<close> is the source's \<open>alphaNotPD\<close> exit.
\<close>

definition observeUD ::
  "toolkit \<Rightarrow> UD_scheme \<Rightarrow> Vec \<Rightarrow> Vec \<Rightarrow> real \<Rightarrow> real \<times> Vec \<times> real \<times> UD_scheme" where
  "observeUD tk st gain h r =
     (let n = length (UD st);
          (av, bv) = observeUD_ab (UD st) n (h, b st);
          alpha = r + bv ! 0 * av ! 0
      in if alpha \<le> 0 then (- 1, gain, alpha, st\<lparr>a := av, b := bv\<rparr>)
         else
           let gamma = 1 / alpha;
               UD1 = mat_set (UD st) 0 0 (UD st ! 0 ! 0 * (r * gamma));
               (ok, alpha', gamma', UD2, bv2) = observeUD_sweep n av 1 alpha gamma UD1 bv;
               st' = st\<lparr>a := av, b := bv2, UD := UD2\<rparr>
           in if \<not> ok then (- 1, gain, alpha', st')
              else
                let gain' = fold (\<lambda>j g. g[j := bv2 ! j * gamma']) [0..<n] gain
                in (UdUrcond tk UD2 n, gain', alpha', st'))"

text \<open>
  The innovation variance the sweep has accumulated once index \<open>j\<close> is done:
  \<open>alpha = r + b[0] * a[0]\<close> at the first index, \<open>alpha += b[j] * a[j]\<close> after it,
  over the \<open>a\<close> and \<open>b\<close> that \<open>observeUD_ab\<close> leaves.
\<close>

primrec observeUD_alpha :: "Vec \<Rightarrow> Vec \<Rightarrow> real \<Rightarrow> nat \<Rightarrow> real" where
  "observeUD_alpha av bv r 0 = r + bv ! 0 * av ! 0"
| "observeUD_alpha av bv r (Suc j) = observeUD_alpha av bv r j + bv ! Suc j * av ! Suc j"

subsection \<open>init and update\<close>

text \<open>\<open>UD.sub_matrix(0,x_size, 0,x_size).assign (X)\<close>.\<close>

definition assign_sub_matrix :: "Matrix \<Rightarrow> nat \<Rightarrow> Matrix \<Rightarrow> Matrix" where
  "assign_sub_matrix UDm x_size Xm =
     fold (\<lambda>i U. fold (\<lambda>j U'. mat_set U' i j (Xm ! i ! j)) [0..<x_size] U) [0..<x_size] UDm"

text \<open>\<open>UD_scheme::init\<close>: the result is what \<open>check_PSD\<close> raises, or nothing.\<close>

definition init :: "toolkit \<Rightarrow> UD_scheme \<Rightarrow> (error + unit) \<times> UD_scheme" where
  "init tk st =
     (let x_size = length (UD st);
          UD1 = assign_sub_matrix (UD st) x_size (X st);
          (UD2, rcond) = UdUfactor tk UD1 x_size;
          st' = st\<lparr>UD := UD2\<rparr>
      in (check_PSD (rclimit st') rcond ''Initial X not PSD'', st'))"

definition update :: "toolkit \<Rightarrow> UD_scheme \<Rightarrow> UD_scheme" where
  "update tk st = st\<lparr>X := UdUrecompose tk (X st) (UD st)\<rparr>"

subsection \<open>predict: MWG-S prediction\<close>

text \<open>The predict model as \<open>UD_scheme::predict\<close> uses it: the transition \<open>f\<close>, its Jacobian
  \<open>Fx\<close>, the noise coupling \<open>G\<close> and the noise variances \<open>q\<close>.\<close>

record Linrz_predict_model =
  f :: "Vec \<Rightarrow> Vec"
  Fx :: Matrix
  G :: Matrix
  q :: Vec

text \<open>Augment \<open>d\<close> with \<open>q\<close> and \<open>UD\<close> with \<open>G\<close>.\<close>

definition predictGq_augment :: "nat \<Rightarrow> Matrix \<Rightarrow> Vec \<Rightarrow> UD_scheme \<Rightarrow> UD_scheme" where
  "predictGq_augment n Gm qv st =
     (let Nq = length qv;
          d1 = fold (\<lambda>i dd. dd[i + n := qv ! i]) [0..<Nq] (d st);
          UD1 = fold (\<lambda>j U. fold (\<lambda>i U'. mat_set U' j (i + n) (Gm ! j ! i)) [0..<Nq] U)
                  [0..<n] (UD st)
      in st\<lparr>d := d1, UD := UD1\<rparr>)"

text \<open>One column \<open>j\<close> of \<open>U = Fx*U\<close>: \<open>d(0)..d(j)\<close> take the column, then every row \<open>i\<close>
  gets \<open>Fx(i,j)\<close> plus the accumulated products.\<close>

definition predictGq_FxU_col :: "nat \<Rightarrow> Matrix \<Rightarrow> nat \<Rightarrow> UD_scheme \<Rightarrow> UD_scheme" where
  "predictGq_FxU_col n Fxm j st =
     (let d1 = fold (\<lambda>i dd. dd[i := UD st ! i ! j]) [0..<Suc j] (d st);
          UD1 = fold (\<lambda>i U.
                    fold (\<lambda>k U'. mat_set U' i j (U' ! i ! j + Fxm ! i ! k * d1 ! k)) [0..<j]
                      (mat_set U i j (Fxm ! i ! j)))
                  [0..<n] (UD st)
      in st\<lparr>d := d1, UD := UD1\<rparr>)"

text \<open>\<open>for (j = n-1; j > 0; --j)\<close>, then \<open>d[0] = UD(0,0)\<close> and column 0 of \<open>Fx\<close>.\<close>

definition predictGq_FxU :: "nat \<Rightarrow> Matrix \<Rightarrow> UD_scheme \<Rightarrow> UD_scheme" where
  "predictGq_FxU n Fxm st =
     (let st1 = fold (predictGq_FxU_col n Fxm) (rev [1..<n]) st;
          st2 = st1\<lparr>d := (d st1)[0 := UD st1 ! 0 ! 0]\<rparr>
      in st2\<lparr>UD := fold (\<lambda>j U. mat_set U j 0 (Fxm ! j ! 0)) [0..<n] (UD st2)\<rparr>)"

text \<open>The pivot loop of a MWG-S row: \<open>v\<close> takes row \<open>j\<close>, \<open>dv = d * v\<close>, and \<open>e\<close>
  accumulates \<open>v * dv\<close>. The result is \<open>(v, dv, e)\<close>.\<close>

definition MWGS_pivot :: "nat \<Rightarrow> nat \<Rightarrow> UD_scheme \<Rightarrow> Vec \<times> Vec \<times> real" where
  "MWGS_pivot N j st =
     fold (\<lambda>k (vv, dvv, e).
             let vv' = vv[k := UD st ! j ! k];
                 dvv' = dvv[k := d st ! k * vv' ! k]
             in (vv', dvv', e + vv' ! k * dvv' ! k))
       [0..<N] (v st, dv st, 0)"

text \<open>The positive definite branch: row \<open>j\<close> is normalised and eliminated from the rows
  \<open>k < j\<close>.\<close>

definition MWGS_eliminate :: "nat \<Rightarrow> nat \<Rightarrow> real \<Rightarrow> Vec \<Rightarrow> Vec \<Rightarrow> Matrix \<Rightarrow> Matrix" where
  "MWGS_eliminate N j diaginv vv dvv UDm =
     fold (\<lambda>k U.
             let e = fold (\<lambda>i acc. acc + U ! k ! i * dvv ! i) [0..<N] 0;
                 e' = e * diaginv;
                 U1 = mat_set U j k e'
             in fold (\<lambda>i U'. mat_set U' k i (U' ! k ! i - e' * vv ! i)) [0..<N] U1)
       [0..<j] UDm"

text \<open>The semidefinite branch's scan: \<open>False\<close> is the jump to \<open>Negative\<close> at the first
  product \<open>UDk[i] * dv[i]\<close> that is not zero.\<close>

primrec MWGS_scan_row :: "Vec \<Rightarrow> Vec \<Rightarrow> nat list \<Rightarrow> bool" where
  "MWGS_scan_row UDk dvv [] = True"
| "MWGS_scan_row UDk dvv (i # is) =
     (let e = UDk ! i * dvv ! i in if e \<noteq> 0 then False else MWGS_scan_row UDk dvv is)"

primrec MWGS_scan :: "nat \<Rightarrow> Matrix \<Rightarrow> Vec \<Rightarrow> nat list \<Rightarrow> bool" where
  "MWGS_scan N UDm dvv [] = True"
| "MWGS_scan N UDm dvv (k # ks) =
     (if MWGS_scan_row (UDm ! k) dvv [0..<N] then MWGS_scan N UDm dvv ks else False)"

text \<open>The body of the MWG-S \<open>do\<close> loop at row \<open>j\<close>; \<open>False\<close> is the jump to
  \<open>Negative\<close>.\<close>

definition MWGS_row :: "nat \<Rightarrow> nat \<Rightarrow> UD_scheme \<Rightarrow> bool \<times> UD_scheme" where
  "MWGS_row N j st =
     (let (vv, dvv, e) = MWGS_pivot N j st;
          st1 = st\<lparr>v := vv, dv := dvv\<rparr>
      in if e > 0 then
           (True, st1\<lparr>UD := MWGS_eliminate N j (1 / e) vv dvv (mat_set (UD st1) j j e)\<rparr>)
         else if e = 0 then
           (let st2 = st1\<lparr>UD := mat_set (UD st1) j j e\<rparr>
            in (MWGS_scan N (UD st2) dvv [0..<j], st2))
         else (False, st1))"

text \<open>\<open>do { ... } while (j-- > 0)\<close>, entered at row \<open>j\<close>.\<close>

fun MWGS :: "nat \<Rightarrow> nat \<Rightarrow> UD_scheme \<Rightarrow> bool \<times> UD_scheme" where
  "MWGS N 0 st = MWGS_row N 0 st"
| "MWGS N (Suc j) st =
     (case MWGS_row N (Suc j) st of
        (True, st') \<Rightarrow> MWGS N j st'
      | (False, st') \<Rightarrow> (False, st'))"

text \<open>
  The state in which the MWG-S \<open>do\<close> loop, entered at row \<open>j0\<close>, reaches row
  \<open>j0 - k\<close>: the first \<open>k\<close> passes through its body have all fallen through to
  \<open>while (j-- > 0)\<close>. \<open>None\<close> when one of them has jumped to \<open>Negative\<close>.
\<close>

primrec MWGS_after :: "nat \<Rightarrow> nat \<Rightarrow> nat \<Rightarrow> UD_scheme \<Rightarrow> UD_scheme option" where
  "MWGS_after N j0 0 st = Some st"
| "MWGS_after N j0 (Suc k) st =
     (case MWGS_after N j0 k st of
        None \<Rightarrow> None
      | Some st' \<Rightarrow>
          (case MWGS_row N (j0 - k) st' of
             (True, st'') \<Rightarrow> Some st''
           | (False, st'') \<Rightarrow> None))"

text \<open>Transpose the strict lower triangle into the upper one and zero it.\<close>

definition predictGq_transpose :: "nat \<Rightarrow> Matrix \<Rightarrow> Matrix" where
  "predictGq_transpose n UDm =
     fold (\<lambda>j U. fold (\<lambda>i U'. mat_set (mat_set U' i j (U' ! j ! i)) j i 0) [0..<j] U)
       [1..<n] UDm"

text \<open>The state on entry to the MWG-S loop.\<close>

definition predictGq_prepare :: "Matrix \<Rightarrow> Matrix \<Rightarrow> Vec \<Rightarrow> UD_scheme \<Rightarrow> UD_scheme" where
  "predictGq_prepare Fxm Gm qv st =
     (let n = length (x st) in predictGq_FxU n Fxm (predictGq_augment n Gm qv st))"

definition predictGq ::
  "toolkit \<Rightarrow> UD_scheme \<Rightarrow> Matrix \<Rightarrow> Matrix \<Rightarrow> Vec \<Rightarrow> (error + real) \<times> UD_scheme" where
  "predictGq tk st Fxm Gm qv =
     (let n = length (x st);
          Nq = length qv;
          N = n + Nq
      in if Nq > q_max st then
           (Inl (Logic_exception ''Predict model q larger than preallocated space''), st)
         else if n > 0 then
           (case MWGS N (n - 1) (predictGq_prepare Fxm Gm qv st) of
              (False, st') \<Rightarrow> (Inr (- 1), st')
            | (True, st') \<Rightarrow>
                (let st'' = st'\<lparr>UD := predictGq_transpose n (UD st')\<rparr>
                 in (Inr (UdUrcond tk (UD st'') n), st'')))
         else (Inr (UdUrcond tk (UD st) n), st))"

definition predict ::
  "toolkit \<Rightarrow> UD_scheme \<Rightarrow> Linrz_predict_model \<Rightarrow> (error + real) \<times> UD_scheme" where
  "predict tk st fm =
     (let st1 = st\<lparr>x := f fm (x st)\<rparr> in
      case predictGq tk st1 (Fx fm) (G fm) (q fm) of
        (Inl e, st2) \<Rightarrow> (Inl e, st2)
      | (Inr rcond, st2) \<Rightarrow>
          (case check_PSD (rclimit st2) rcond ''X not PSD in predict'' of
             Inl e \<Rightarrow> (Inl e, st2)
           | Inr u \<Rightarrow> (Inr rcond, st2)))"

subsection \<open>observe: sequential scalar updates\<close>

text \<open>
  The observe models are declared in bayesFlt.hpp and UDFlt.hpp, which are not among the
  sources; the records hold the members the \<open>observe\<close> functions use. \<open>normalise hm z zp\<close>
  is the value \<open>h.normalise (znorm = z, zp)\<close> leaves in \<open>znorm\<close>. \<open>ho hm xv o\<close> is the
  predicted observation returned by \<open>h.ho (x, o)\<close> together with the row it leaves in
  \<open>h.Hx_o\<close>.
\<close>

record Linrz_observe_model =
  h :: "Vec \<Rightarrow> Vec"
  normalise :: "Vec \<Rightarrow> Vec \<Rightarrow> Vec"
  Hx :: Matrix

record Linrz_uncorrelated_observe_model = Linrz_observe_model +
  Zv :: Vec

record UD_sequential_observe_model = Linrz_uncorrelated_observe_model +
  ho :: "Vec \<Rightarrow> nat \<Rightarrow> Vec \<times> Vec"

record Linrz_correlated_observe_model = Linrz_observe_model +
  Z :: Matrix

text \<open>A linear model is a linearised one whose \<open>h\<close> is linear; \<open>observe\<close> is overloaded on
  the static type.\<close>

type_synonym Linear_correlated_observe_model = Linrz_correlated_observe_model

text \<open>\<open>resize\<close> keeps the leading elements; the source leaves new elements
  uninitialised (they are written before they are read), the model fills them with 0.\<close>

definition resize_vec :: "Vec \<Rightarrow> nat \<Rightarrow> Vec" where
  "resize_vec xs n = take n xs @ replicate (n - length xs) 0"

definition resize_mat :: "Matrix \<Rightarrow> nat \<Rightarrow> nat \<Rightarrow> Matrix" where
  "resize_mat M m n =
     map (\<lambda>row. resize_vec row n) (take m M) @ replicate (m - length M) (replicate n 0)"

definition observe_size :: "UD_scheme \<Rightarrow> nat \<Rightarrow> UD_scheme" where
  "observe_size st z_size =
     (if z_size \<noteq> last_z_size st then
        st\<lparr>last_z_size := z_size,
           s := resize_vec (s st) z_size,
           Sd := resize_vec (Sd st) z_size,
           znorm := resize_vec (znorm st) z_size\<rparr>
      else st)"

text \<open>\<open>FM::noalias(x) += w * s\<close>.\<close>

definition add_scaled :: "Vec \<Rightarrow> Vec \<Rightarrow> real \<Rightarrow> Vec" where
  "add_scaled xv wv sv = map (\<lambda>i. xv ! i + wv ! i * sv) [0..<length xv]"

text \<open>
  What the three sequential loops share from the call of \<open>observeUD (w, S, hrow, r)\<close> on:
  the conditioning check, then the state update with the innovation \<open>znorm[o] - zpred[o]\<close>
  and the copies into \<open>s\<close> and \<open>Sd\<close>. The result is the exception raised, or the
  \<open>rcond\<close> of this scalar update.
\<close>

definition observe_update ::
  "toolkit \<Rightarrow> Vec \<Rightarrow> real \<Rightarrow> Vec \<Rightarrow> nat \<Rightarrow> UD_scheme \<Rightarrow> (error + real) \<times> UD_scheme" where
  "observe_update tk hrow r zpred ob st =
     (let (rcond, gain, S, st1) = observeUD tk st (w st) hrow r;
          st2 = st1\<lparr>w := gain\<rparr>
      in case check_PSD (rclimit st2) rcond ''S not PD in observe'' of
           Inl e \<Rightarrow> (Inl e, st2)
         | Inr u \<Rightarrow>
             (let sv = znorm st2 ! ob - zpred ! ob
              in (Inr rcond,
                  st2\<lparr>x := add_scaled (x st2) (w st2) sv,
                      s := (s st2)[ob := sv],
                      Sd := (Sd st2)[ob := S]\<rparr>)))"

text \<open>
  \<open>for (o = 0; o < z_size; ++o)\<close> with the running minimum \<open>rcondmin\<close>; \<open>body o\<close> is one
  pass through the loop body. An exception leaves the loop with the state as it is.
\<close>

function observe_loop ::
  "(nat \<Rightarrow> UD_scheme \<Rightarrow> (error + real) \<times> UD_scheme) \<Rightarrow> nat \<Rightarrow> nat \<Rightarrow> real \<Rightarrow> UD_scheme
     \<Rightarrow> (error + real) \<times> UD_scheme" where
  "observe_loop body z_size ob rcondmin st =
     (if ob < z_size then
        (case body ob st of
           (Inl e, st') \<Rightarrow> (Inl e, st')
         | (Inr rcond, st') \<Rightarrow>
             observe_loop body z_size (Suc ob) (if rcond < rcondmin then rcond else rcondmin) st')
      else (Inr rcondmin, st))"
  by pat_completeness auto
termination
  by (relation "measure (\<lambda>(body, z_size, ob, rcondmin, st). z_size - ob)") auto

declare observe_loop.simps [simp del]

text \<open>The loop body of \<open>observe (Linrz_uncorrelated_observe_model&, z)\<close>.\<close>

definition observe_Linrz_uncorrelated_body ::
  "toolkit \<Rightarrow> Linrz_uncorrelated_observe_model \<Rightarrow> Vec \<Rightarrow> nat \<Rightarrow> UD_scheme
     \<Rightarrow> (error + real) \<times> UD_scheme" where
  "observe_Linrz_uncorrelated_body tk hm z ob st =
     (let zp = h hm (x st);
          st1 = st\<lparr>znorm := normalise hm z zp, h1 := Hx hm ! ob\<rparr>
      in if Zv hm ! ob < 0 then (Inl (Numeric_exception ''Zv not PSD in observe''), st1)
         else observe_update tk (h1 st1) (Zv hm ! ob) zp ob st1)"

definition observe_Linrz_uncorrelated ::
  "toolkit \<Rightarrow> UD_scheme \<Rightarrow> Linrz_uncorrelated_observe_model \<Rightarrow> Vec
     \<Rightarrow> (error + real) \<times> UD_scheme" where
  "observe_Linrz_uncorrelated tk st hm z =
     (let z_size = length z
      in observe_loop (observe_Linrz_uncorrelated_body tk hm z) z_size 0 (Float_max tk)
           (observe_size st z_size))"

text \<open>\<open>observe (Linrz_correlated_observe_model&, z)\<close>: no solution.\<close>

definition observe_Linrz_correlated ::
  "toolkit \<Rightarrow> UD_scheme \<Rightarrow> Linrz_correlated_observe_model \<Rightarrow> Vec
     \<Rightarrow> (error + real) \<times> UD_scheme" where
  "observe_Linrz_correlated tk st hm z =
     (Inl (Logic_exception ''observe no Linrz_correlated_observe_model solution''), st)"

text \<open>The loop body of \<open>observe (UD_sequential_observe_model&, z)\<close>.\<close>

definition observe_UD_sequential_body ::
  "toolkit \<Rightarrow> UD_sequential_observe_model \<Rightarrow> Vec \<Rightarrow> nat \<Rightarrow> UD_scheme
     \<Rightarrow> (error + real) \<times> UD_scheme" where
  "observe_UD_sequential_body tk hm z ob st =
     (let (zp, Hx_o) = ho hm (x st) ob;
          st1 = st\<lparr>znorm := normalise hm z zp\<rparr>
      in if Zv hm ! ob < 0 then (Inl (Numeric_exception ''Zv not PSD in observe''), st1)
         else observe_update tk Hx_o (Zv hm ! ob) zp ob st1)"

definition observe_UD_sequential ::
  "toolkit \<Rightarrow> UD_scheme \<Rightarrow> UD_sequential_observe_model \<Rightarrow> Vec \<Rightarrow> (error + real) \<times> UD_scheme" where
  "observe_UD_sequential tk st hm z =
     (let z_size = length z
      in observe_loop (observe_UD_sequential_body tk hm z) z_size 0 (Float_max tk)
           (observe_size st z_size))"

text \<open>
  \<open>observe (Linear_correlated_observe_model&, z)\<close>. The triangular systems are solved in
  place by \<open>i = z_size-1; do { for (k = i+1; k < z_size; ++k) ... } while (i-- > 0)\<close>.
\<close>

definition decorrelate_col :: "Matrix \<Rightarrow> nat \<Rightarrow> nat \<Rightarrow> Matrix \<Rightarrow> Matrix" where
  "decorrelate_col Gzm z_size j M =
     fold (\<lambda>i M'. fold (\<lambda>k M''. mat_set M'' i j (M'' ! i ! j - Gzm ! i ! k * M'' ! k ! j))
                     [Suc i..<z_size] M')
       (rev [0..<z_size]) M"

definition decorrelate_vec :: "Matrix \<Rightarrow> nat \<Rightarrow> Vec \<Rightarrow> Vec" where
  "decorrelate_vec Gzm z_size zv =
     fold (\<lambda>i zv'. fold (\<lambda>k zv''. zv''[i := zv'' ! i - Gzm ! i ! k * zv'' ! k])
                     [Suc i..<z_size] zv')
       (rev [0..<z_size]) zv"

definition observe_Linear_correlated_body ::
  "toolkit \<Rightarrow> nat \<Rightarrow> UD_scheme \<Rightarrow> (error + real) \<times> UD_scheme" where
  "observe_Linear_correlated_body tk ob st =
     (let st1 = st\<lparr>h1 := GIHx st ! ob\<rparr>
      in observe_update tk (h1 st1) (Gz st ! ob ! ob) (zpdecol st1) ob st1)"

text \<open>What \<open>observe (Linear_correlated_observe_model&, z)\<close> does before its sequential
  loop: sizing, the factorisation of \<open>Z\<close> with its conditioning check, and the
  decorrelation. The result is the exception raised, or nothing.\<close>

definition observe_Linear_correlated_decorrelate ::
  "toolkit \<Rightarrow> UD_scheme \<Rightarrow> Linear_correlated_observe_model \<Rightarrow> Vec
     \<Rightarrow> (error + unit) \<times> UD_scheme" where
  "observe_Linear_correlated_decorrelate tk st hm z =
     (let x_size = length (x st);
          z_size = length z;
          st0 = observe_size st z_size;
          st1 = (if z_size \<noteq> length (zpdecol st0) then
                   st0\<lparr>zpdecol := resize_vec (zpdecol st0) z_size,
                       Gz := resize_mat (Gz st0) z_size z_size,
                       GIHx := resize_mat (GIHx st0) z_size x_size\<rparr>
                 else st0);
          (Gz', rcond) = UdUfactor_of tk (Z hm);
          st2 = st1\<lparr>Gz := Gz'\<rparr>
      in case check_PSD (rclimit st2) rcond ''Z not PSD in observe'' of
           Inl e \<Rightarrow> (Inl e, st2)
         | Inr u \<Rightarrow>
             (let zp = h hm (x st2);
                  st3 = st2\<lparr>znorm := normalise hm z zp\<rparr>
              in (Inr (),
                  if z_size > 0 then
                    st3\<lparr>GIHx := fold (decorrelate_col (Gz st3) z_size) [0..<x_size] (Hx hm),
                        zpdecol := decorrelate_vec (Gz st3) z_size zp,
                        znorm := decorrelate_vec (Gz st3) z_size (znorm st3)\<rparr>
                  else st3)))"

definition observe_Linear_correlated ::
  "toolkit \<Rightarrow> UD_scheme \<Rightarrow> Linear_correlated_observe_model \<Rightarrow> Vec
     \<Rightarrow> (error + real) \<times> UD_scheme" where
  "observe_Linear_correlated tk st hm z =
     (case observe_Linear_correlated_decorrelate tk st hm z of
        (Inl e, st') \<Rightarrow> (Inl e, st')
      | (Inr u, st') \<Rightarrow>
          observe_loop (observe_Linear_correlated_body tk) (length z) 0 (Float_max tk) st')"

text \<open>
  The sequential loop seen from outside: after the first \<open>k\<close> passes through \<open>body\<close>
  (components \<open>0\<close> to \<open>k - 1\<close>), the \<open>rcond\<close> each of them produced and the state they
  leave. \<open>None\<close> when one of them has raised an exception.
\<close>

primrec observe_after ::
  "(nat \<Rightarrow> UD_scheme \<Rightarrow> (error + real) \<times> UD_scheme) \<Rightarrow> nat \<Rightarrow> UD_scheme
     \<Rightarrow> (real list \<times> UD_scheme) option" where
  "observe_after body 0 st = Some ([], st)"
| "observe_after body (Suc k) st =
     (case observe_after body k st of
        None \<Rightarrow> None
      | Some (rcs, st') \<Rightarrow>
          (case body k st' of
             (Inl e, st'') \<Rightarrow> None
           | (Inr rcond, st'') \<Rightarrow> Some (rcs @ [rcond], st'')))"

subsection \<open>A concrete filter\<close>

text \<open>
  An instance of the toolkit for concrete runs. Its rcond is the ratio of the smallest to
  the largest diagonal entry, \<open>-1\<close> when an entry is negative; its factorisation and
  recomposition leave the matrix as it is, which is the UdU' factor of a diagonal
  matrix. \<open>Float_max\<close> is the largest finite double.
\<close>

definition example_rcond :: "Matrix \<Rightarrow> nat \<Rightarrow> real" where
  "example_rcond M n =
     (let ds = map (\<lambda>i. M ! i ! i) [0..<n];
          mind = fold min ds (M ! 0 ! 0);
          maxd = fold max ds 0
      in if mind < 0 then - 1 else if maxd = 0 then 0 else min 1 (mind / maxd))"

definition example_toolkit :: toolkit where
  "example_toolkit =
     \<lparr>UdUrcond = example_rcond,
      UdUfactor = (\<lambda>M n. (M, example_rcond M n)),
      UdUfactor_of = (\<lambda>Zm. (Zm, example_rcond Zm (length Zm))),
      UdUrecompose = (\<lambda>Xm M. Xm),
      Float_max = 2 ^ 1024 - 2 ^ 971\<rparr>"

text \<open>A two-state filter with \<open>q_max = 1\<close>: \<open>U(0,1) = 1/2\<close>, \<open>D = diag (4, 1)\<close>.\<close>

definition example_filter :: UD_scheme where
  "example_filter =
     \<lparr>x = [0, 0], X = [[17 / 4, 1 / 2], [1 / 2, 1]], rclimit = 1 / 1000, q_max = 1,
      UD = [[4, 1 / 2, 0], [0, 1, 0]],
      s = [], Sd = [], d = [0, 0, 0], dv = [0, 0, 0], v = [0, 0, 0],
      a = [0, 0], b = [0, 0], h1 = [0, 0], w = [0, 0],
      znorm = [], zpdecol = [], Gz = [], GIHx = [], last_z_size = 0\<rparr>"

text \<open>An observation of both states, each with unit variance.\<close>

definition example_observe_model :: Linrz_uncorrelated_observe_model where
  "example_observe_model =
     \<lparr>h = (\<lambda>xv. xv), normalise = (\<lambda>zv zp. zv), Hx = [[1, 0], [0, 1]], Zv = [1, 1]\<rparr>"

text \<open>The same filter with a negative entry in \<open>D\<close>: a factor that is not
  positive semi-definite.\<close>

definition singular_filter :: UD_scheme where
  "singular_filter = example_filter\<lparr>UD := [[1, 0, 0], [0, - 5, 0]]\<rparr>"

text \<open>A predict model whose noise vector has two entries, one more than \<open>q_max\<close> of
  the filter above.\<close>

definition oversized_predict_model :: Linrz_predict_model where
  "oversized_predict_model =
     \<lparr>f = (\<lambda>xv. map (\<lambda>xi. xi + 1) xv), Fx = [[1, 0], [0, 1]],
      G = [[1, 0], [0, 1]], q = [1, 1]\<rparr>"

text \<open>A covariance with a negative variance.\<close>

definition indefinite_filter :: UD_scheme where
  "indefinite_filter = example_filter\<lparr>X := [[- 1, 0], [0, 1]]\<rparr>"

text \<open>Predict models with one noise entry of negative variance: the pivot of row 0 is
  \<open>4 - 10 < 0\<close> in the first; in the second the pivot of row 1 is \<open>1 - 1 = 0\<close> while
  row 0 is coupled to it.\<close>

definition negative_predict_model :: Linrz_predict_model where
  "negative_predict_model =
     \<lparr>f = (\<lambda>xv. xv), Fx = [[1, 0], [0, 1]], G = [[1], [0]], q = [- 10]\<rparr>"

definition semidefinite_predict_model :: Linrz_predict_model where
  "semidefinite_predict_model =
     \<lparr>f = (\<lambda>xv. xv), Fx = [[1, 0], [0, 1]], G = [[1], [1]], q = [- 1]\<rparr>"

text \<open>The same observation with the two components in the other order.\<close>

definition reversed_observe_model :: Linrz_uncorrelated_observe_model where
  "reversed_observe_model = example_observe_model\<lparr>Hx := [[0, 1], [1, 0]]\<rparr>"

text \<open>A filter that knows its second state exactly and accepts any non-negative rcond,
  and a model whose second component is observed without noise.\<close>

definition degenerate_filter :: UD_scheme where
  "degenerate_filter = example_filter\<lparr>rclimit := 0, UD := [[4, 0, 0], [0, 0, 0]]\<rparr>"

definition noiseless_observe_model :: Linrz_uncorrelated_observe_model where
  "noiseless_observe_model = example_observe_model\<lparr>Zv := [1, 0]\<rparr>"

text \<open>A model whose first component observes the sum of the two states.\<close>

definition coupled_observe_model :: Linrz_uncorrelated_observe_model where
  "coupled_observe_model = example_observe_model\<lparr>Hx := [[1, 1], [0, 1]]\<rparr>"

section \<open>Properties\<close>

text \<open>
  C7. For a one-dimensional state whose prior variance \<open>P\<close> is held in \<open>UD(0,0)\<close>, a single
  scalar observation with coefficient \<open>h = 1\<close> and variance \<open>r \<ge> 0\<close> with \<open>P + r > 0\<close>:
  the gain written by \<open>observeUD\<close> is the scalar Kalman gain \<open>P / (P + r)\<close>, and the
  innovation variance it reports is \<open>P + r\<close>.
\<close>

theorem observeUD_scalar_gain:
  assumes "conformant st" and "length (x st) = 1" and "UD st ! 0 ! 0 = P"
    and "length gain = 1" and "0 \<le> r" and "0 < P + r"
  shows "\<exists>rcond gain' st'. observeUD tk st gain [1] r = (rcond, gain', P + r, st')
           \<and> gain' ! 0 = P / (P + r)"
proof -
  from assms(1,2) have n: "length (UD st) = 1" and lb: "length (b st) = 1"
    by (simp_all add: conformant_def Let_def)
  from assms(6) have pos: "\<not> r + P \<le> 0" by simp
  show ?thesis
    using n lb pos assms(3,4)
    by (simp add: observeUD_def observeUD_ab_def observeUD_b_def observeUD_a_def observeUD_sweep.simps
        Let_def add.commute)
qed

theorem observeUD_scalar_gain_witness:
  "conformant (example_filter\<lparr>x := [0], UD := [[2, 0]], a := [0], b := [0], h1 := [0],
       w := [0], d := [0, 0], dv := [0, 0], v := [0, 0]\<rparr>)
   \<and> (0::real) \<le> 1 \<and> (0::real) < 2 + 1
   \<and> (\<exists>rcond gain' st'.
         observeUD example_toolkit
           (example_filter\<lparr>x := [0], UD := [[2, 0]], a := [0], b := [0], h1 := [0],
              w := [0], d := [0, 0], dv := [0, 0], v := [0, 0]\<rparr>) [0] [1] 1
           = (rcond, gain', 3, st')
         \<and> gain' ! 0 = 2 / 3)"
proof -
  define st where "st = example_filter\<lparr>x := [0], UD := [[2, 0]], a := [0], b := [0],
      h1 := [0], w := [0], d := [0, 0], dv := [0, 0], v := [0, 0]\<rparr>"
  have c: "conformant st"
    by (simp add: st_def example_filter_def conformant_def)
  have "\<exists>rcond gain' st'. observeUD example_toolkit st [0] [1] 1 = (rcond, gain', 2 + 1, st')
          \<and> gain' ! 0 = 2 / (2 + 1)"
    by (rule observeUD_scalar_gain [OF c]) (simp_all add: st_def example_filter_def)
  with c show ?thesis
    by (simp add: st_def)
qed

subsection \<open>Singular innovation in observeUD\<close>

lemma observeUD_frame_x: "x (snd (snd (snd (observeUD tk st gain hrow r)))) = x st"
  by (simp add: observeUD_def Let_def split: prod.split)

lemma observeUD_U_fold_b:
  "m \<le> k \<Longrightarrow>
   snd (fold (\<lambda>i (UDm, bv). let UD_jm1 = UDm ! i ! j in
              (mat_set UDm i j (UD_jm1 + lamda * bv ! i), bv[i := bv ! i + bv ! j * UD_jm1]))
       [0..<m] (UDm0, bv0)) ! k = bv0 ! k"
  by (induction m) (auto simp: Let_def split: prod.split)

lemma observeUD_U_b: "j \<le> k \<Longrightarrow> snd (observeUD_U j lamda (UDm, bv)) ! k = bv ! k"
  unfolding observeUD_U_def by (rule observeUD_U_fold_b)

lemma observeUD_sweep_ok:
  "observeUD_sweep n av j alpha gamma UDm bv = (ok, rest) \<Longrightarrow>
     ok \<longleftrightarrow> (\<forall>k. j \<le> k \<and> k < n \<longrightarrow> 0 < alpha + (\<Sum>i = j..k. bv ! i * av ! i))"
proof (induction n av j alpha gamma UDm bv arbitrary: ok rest rule: observeUD_sweep.induct)
  case (1 n av j alpha gamma UDm bv)
  show ?case
  proof (cases "j < n")
    case False
    with "1.prems" show ?thesis by (simp add: observeUD_sweep.simps)
  next
    case jn: True
    define alpha' where "alpha' = alpha + bv ! j * av ! j"
    show ?thesis
    proof (cases "alpha' \<le> 0")
      case True
      with jn "1.prems" have "\<not> ok"
        by (simp add: observeUD_sweep.simps alpha'_def Let_def)
      moreover from True jn have "\<not> (\<forall>k. j \<le> k \<and> k < n \<longrightarrow> 0 < alpha + (\<Sum>i = j..k. bv ! i * av ! i))"
        by (auto simp: alpha'_def intro!: exI[of _ j])
      ultimately show ?thesis by simp
    next
      case False
      obtain UD2 bv2 where U: "observeUD_U j (- av ! j * gamma)
          (mat_set UDm j j (UDm ! j ! j * (alpha * (1 / alpha'))), bv) = (UD2, bv2)"
        by (cases "observeUD_U j (- av ! j * gamma)
          (mat_set UDm j j (UDm ! j ! j * (alpha * (1 / alpha'))), bv)") 
      have b2: "\<And>k. j \<le> k \<Longrightarrow> bv2 ! k = bv ! k"
        using observeUD_U_b[of j _ "- av ! j * gamma" "mat_set UDm j j (UDm ! j ! j * (alpha * (1 / alpha')))" bv] U
        by simp
      from jn False U "1.prems"
      have rec: "observeUD_sweep n av (Suc j) alpha' (1 / alpha') UD2 bv2 = (ok, rest)"
        by (simp add: observeUD_sweep.simps[of n av j] alpha'_def Let_def)
      have IH: "ok \<longleftrightarrow> (\<forall>k. Suc j \<le> k \<and> k < n \<longrightarrow> 0 < alpha' + (\<Sum>i = Suc j..k. bv2 ! i * av ! i))"
        using "1.IH"[OF jn refl refl refl False[unfolded alpha'_def] refl refl refl
            U[unfolded alpha'_def, symmetric] rec[unfolded alpha'_def]]
        by (simp add: alpha'_def)
      have sums: "\<And>k. Suc j \<le> k \<Longrightarrow> alpha' + (\<Sum>i = Suc j..k. bv2 ! i * av ! i) = alpha + (\<Sum>i = j..k. bv ! i * av ! i)"
      proof -
        fix k assume k: "Suc j \<le> k"
        have "(\<Sum>i = Suc j..k. bv2 ! i * av ! i) = (\<Sum>i = Suc j..k. bv ! i * av ! i)"
          by (rule sum.cong) (auto simp: b2)
        moreover have "(\<Sum>i = j..k. bv ! i * av ! i) = bv ! j * av ! j + (\<Sum>i = Suc j..k. bv ! i * av ! i)"
          using k by (simp add: sum.atLeast_Suc_atMost)
        ultimately show "alpha' + (\<Sum>i = Suc j..k. bv2 ! i * av ! i) = alpha + (\<Sum>i = j..k. bv ! i * av ! i)"
          by (simp add: alpha'_def)
      qed
      show ?thesis
      proof
        assume ok
        show "\<forall>k. j \<le> k \<and> k < n \<longrightarrow> 0 < alpha + (\<Sum>i = j..k. bv ! i * av ! i)"
        proof (intro allI impI)
          fix k assume k: "j \<le> k \<and> k < n"
          show "0 < alpha + (\<Sum>i = j..k. bv ! i * av ! i)"
          proof (cases "k = j")
            case True
            with False show ?thesis by (simp add: alpha'_def)
          next
            case False
            with k have "Suc j \<le> k" by simp
            with IH \<open>ok\<close> k sums show ?thesis by metis
          qed
        qed
      next
        assume A: "\<forall>k. j \<le> k \<and> k < n \<longrightarrow> 0 < alpha + (\<Sum>i = j..k. bv ! i * av ! i)"
        have "\<forall>k. Suc j \<le> k \<and> k < n \<longrightarrow> 0 < alpha' + (\<Sum>i = Suc j..k. bv2 ! i * av ! i)"
          using A sums by (metis Suc_leD)
        with IH show ok by simp
      qed
    qed
  qed
qed

lemma observeUD_sweep_fail_alpha:
  "observeUD_sweep n av j alpha gamma UDm bv = (False, alpha', rest) \<Longrightarrow> alpha' \<le> 0"
proof (induction n av j alpha gamma UDm bv rule: observeUD_sweep.induct)
  case (1 n av j alpha gamma UDm bv)
  from "1.prems" have jn: "j < n"
    by (simp add: observeUD_sweep.simps[of n av j] split: if_splits)
  show ?case
  proof (cases "alpha + bv ! j * av ! j \<le> 0")
    case True
    with jn "1.prems" show ?thesis
      by (simp add: observeUD_sweep.simps[of n av j] Let_def)
  next
    case False
    obtain UD2 bv2 where U: "(UD2, bv2) = observeUD_U j (- av ! j * gamma)
          (mat_set UDm j j (UDm ! j ! j * (alpha * (1 / (alpha + bv ! j * av ! j)))), bv)"
      by (metis surj_pair)
    from jn False U[symmetric] "1.prems"
    have rec: "observeUD_sweep n av (Suc j) (alpha + bv ! j * av ! j) (1 / (alpha + bv ! j * av ! j)) UD2 bv2
                 = (False, alpha', rest)"
      by (simp add: observeUD_sweep.simps[of n av j] Let_def)
    show ?thesis
      by (rule "1.IH"[OF jn refl refl refl False refl refl refl U rec])
  qed
qed

lemma observeUD_alpha_sum:
  "observeUD_alpha av bv r k = r + bv ! 0 * av ! 0 + (\<Sum>i = 1..k. bv ! i * av ! i)"
  by (induction k) simp_all

lemma observeUD_singular_aux:
  assumes ab: "observeUD_ab (UD st) (length (UD st)) (hrow, b st) = (av, bv)"
    and j: "j < length (UD st)" and sing: "observeUD_alpha av bv r j \<le> 0"
  shows "\<exists>alpha' UD' bv'. alpha' \<le> 0 \<and>
           observeUD tk st gain hrow r = (- 1, gain, alpha', st\<lparr>a := av, b := bv', UD := UD'\<rparr>)"
proof (cases "r + bv ! 0 * av ! 0 \<le> 0")
  case True
  with ab have "observeUD tk st gain hrow r = (- 1, gain, r + bv ! 0 * av ! 0, st\<lparr>a := av, b := bv, UD := UD st\<rparr>)"
    by (simp add: observeUD_def Let_def)
  with True show ?thesis by blast
next
  case False
  define alpha where "alpha = r + bv ! 0 * av ! 0"
  define UD1 where "UD1 = mat_set (UD st) 0 0 (UD st ! 0 ! 0 * (r * (1 / alpha)))"
  obtain ok alpha' gamma' UD2 bv2 where
    sw: "observeUD_sweep (length (UD st)) av 1 alpha (1 / alpha) UD1 bv = (ok, alpha', gamma', UD2, bv2)"
    by (metis prod_cases5)
  from False sing have "j \<noteq> 0" by (cases j) auto
  with j sing have "\<not> (\<forall>k. 1 \<le> k \<and> k < length (UD st) \<longrightarrow> 0 < alpha + (\<Sum>i = 1..k. bv ! i * av ! i))"
    by (auto simp: observeUD_alpha_sum alpha_def intro!: exI[of _ j])
  with observeUD_sweep_ok[OF sw] have nok: "\<not> ok" by simp
  have "observeUD tk st gain hrow r = (- 1, gain, alpha', st\<lparr>a := av, b := bv2, UD := UD2\<rparr>)"
    using ab False sw nok by (simp add: observeUD_def Let_def alpha_def UD1_def)
  moreover have "alpha' \<le> 0"
    using sw nok by (auto dest: observeUD_sweep_fail_alpha)
  ultimately show ?thesis by blast
qed

lemma mat_set_other_col: "c \<noteq> j \<Longrightarrow> mat_set M i j val ! r ! c = M ! r ! c"
  by (cases "i < length M"; cases "r = i") (simp_all add: mat_set_def list_update_beyond)

lemma observeUD_U_fold_col:
  "c \<noteq> j \<Longrightarrow>
   fst (fold (\<lambda>i (UDm, bv). let UD_jm1 = UDm ! i ! j in
              (mat_set UDm i j (UD_jm1 + lamda * bv ! i), bv[i := bv ! i + bv ! j * UD_jm1]))
       [0..<m] (UDm0, bv0)) ! r ! c = UDm0 ! r ! c"
  by (induction m) (auto simp: Let_def mat_set_other_col split: prod.split)

lemma observeUD_U_col: "c \<noteq> j \<Longrightarrow> fst (observeUD_U j lamda (UDm, bv)) ! r ! c = UDm ! r ! c"
  unfolding observeUD_U_def by (rule observeUD_U_fold_col)

lemma observeUD_sweep_cols:
  "observeUD_sweep n av j alpha gamma UDm bv = (ok, alpha', gamma', UD', bv') \<Longrightarrow>
   j \<le> k \<Longrightarrow> k < n \<Longrightarrow> alpha + (\<Sum>i = j..k. bv ! i * av ! i) \<le> 0 \<Longrightarrow> k \<le> c \<Longrightarrow>
   UD' ! r ! c = UDm ! r ! c"
proof (induction n av j alpha gamma UDm bv rule: observeUD_sweep.induct)
  case (1 n av j alpha gamma UDm bv)
  from "1.prems" have jn: "j < n" by simp
  define alpha1 where "alpha1 = alpha + bv ! j * av ! j"
  show ?case
  proof (cases "alpha1 \<le> 0")
    case True
    with jn "1.prems"(1) show ?thesis
      by (simp add: observeUD_sweep.simps[of n av j] alpha1_def Let_def)
  next
    case False
    obtain UD2 bv2 where U: "(UD2, bv2) = observeUD_U j (- av ! j * gamma)
          (mat_set UDm j j (UDm ! j ! j * (alpha * (1 / alpha1))), bv)"
      by (metis surj_pair)
    have b2: "\<And>i. j \<le> i \<Longrightarrow> bv2 ! i = bv ! i"
      using observeUD_U_b[of j _ "- av ! j * gamma"
          "mat_set UDm j j (UDm ! j ! j * (alpha * (1 / alpha1)))" bv] U[symmetric]
      by simp
    from False "1.prems"(2,4) have kj: "Suc j \<le> k"
      by (cases "k = j") (auto simp: alpha1_def)
    from jn False U[symmetric] "1.prems"(1)
    have rec: "observeUD_sweep n av (Suc j) alpha1 (1 / alpha1) UD2 bv2
                 = (ok, alpha', gamma', UD', bv')"
      by (simp add: observeUD_sweep.simps[of n av j] alpha1_def Let_def)
    have "(\<Sum>i = Suc j..k. bv2 ! i * av ! i) = (\<Sum>i = Suc j..k. bv ! i * av ! i)"
      by (rule sum.cong) (auto simp: b2)
    moreover have "(\<Sum>i = j..k. bv ! i * av ! i)
                     = bv ! j * av ! j + (\<Sum>i = Suc j..k. bv ! i * av ! i)"
      using kj by (simp add: sum.atLeast_Suc_atMost)
    ultimately have s: "alpha1 + (\<Sum>i = Suc j..k. bv2 ! i * av ! i) \<le> 0"
      using "1.prems"(4) by (simp add: alpha1_def)
    have "UD' ! r ! c = UD2 ! r ! c"
      by (rule "1.IH"[OF jn refl refl refl False[unfolded alpha1_def] refl refl refl
            U[unfolded alpha1_def] rec[unfolded alpha1_def] kj "1.prems"(3)
            s[unfolded alpha1_def] "1.prems"(5)])
    also have "\<dots> = UDm ! r ! c"
    proof -
      from kj "1.prems"(5) have cj: "c \<noteq> j" by simp
      from U have "UD2 = fst (observeUD_U j (- av ! j * gamma)
          (mat_set UDm j j (UDm ! j ! j * (alpha * (1 / alpha1))), bv))"
        by (metis fst_conv)
      with cj show ?thesis
        by (simp add: observeUD_U_col mat_set_other_col)
    qed
    finally show ?thesis .
  qed
qed

lemma observeUD_singular_cols:
  assumes ab: "observeUD_ab (UD st) (length (UD st)) (hrow, b st) = (av, bv)"
    and j: "j < length (UD st)" and sing: "observeUD_alpha av bv r j \<le> 0"
    and c: "j \<le> c"
  shows "UD (snd (snd (snd (observeUD tk st gain hrow r)))) ! i ! c = UD st ! i ! c"
proof (cases "r + bv ! 0 * av ! 0 \<le> 0")
  case True
  with ab show ?thesis
    by (simp add: observeUD_def Let_def)
next
  case False
  define alpha where "alpha = r + bv ! 0 * av ! 0"
  define UD1 where "UD1 = mat_set (UD st) 0 0 (UD st ! 0 ! 0 * (r * (1 / alpha)))"
  obtain ok alpha' gamma' UD2 bv2 where
    sw: "observeUD_sweep (length (UD st)) av 1 alpha (1 / alpha) UD1 bv
           = (ok, alpha', gamma', UD2, bv2)"
    by (metis prod_cases5)
  from False sing have j0: "1 \<le> j" by (cases j) auto
  from sing have s: "alpha + (\<Sum>i = 1..j. bv ! i * av ! i) \<le> 0"
    by (simp add: observeUD_alpha_sum alpha_def)
  from observeUD_sweep_cols[OF sw j0 j s c] have "UD2 ! i ! c = UD1 ! i ! c" .
  also from j0 c have "\<dots> = UD st ! i ! c"
    by (simp add: UD1_def mat_set_other_col)
  finally have "UD2 ! i ! c = UD st ! i ! c" .
  moreover have "UD (snd (snd (snd (observeUD tk st gain hrow r)))) = UD2"
    using ab False sw by (simp add: observeUD_def Let_def alpha_def UD1_def split: if_splits)
  ultimately show ?thesis by simp
qed

text \<open>
  C1. Whenever the innovation variance that \<open>observeUD\<close> accumulates is \<open>\<le> 0\<close> at the first
  index or at any later index \<open>j\<close> of its forward sweep, \<open>observeUD\<close> returns the sentinel
  \<open>-1\<close> at once: the gain vector is untouched, the last \<open>alpha\<close> it reports is \<open>\<le> 0\<close>
  and no column of \<open>UD\<close> from \<open>j\<close> on has been written. The code the observe loops
  share after the call then raises the numeric failure \<open>S not PD in observe\<close> through
  \<open>check_PSD\<close>, and so does the loop of \<open>observe (Linrz_uncorrelated_observe_model&)\<close> at
  that component once its own variance check has passed; in each case the state mean is
  as before that component. On every input \<open>observeUD\<close> leaves the state mean as it is.
\<close>

theorem observeUD_singular_innovation:
  assumes ab: "observeUD_ab (UD st) (length (UD st)) (hrow, b st) = (av, bv)"
    and j: "j < length (UD st)" and sing: "observeUD_alpha av bv r j \<le> 0"
  shows "(\<exists>alpha' st'. observeUD tk st gain hrow r = (- 1, gain, alpha', st') \<and> alpha' \<le> 0
            \<and> x st' = x st \<and> (\<forall>i c. j \<le> c \<longrightarrow> UD st' ! i ! c = UD st ! i ! c))
       \<and> (\<exists>st'. observe_update tk hrow r zpred ob st
                   = (Inl (Numeric_exception ''S not PD in observe''), st') \<and> x st' = x st)
       \<and> (hrow = Hx hm ! ob \<and> r = Zv hm ! ob \<and> 0 \<le> r \<and> ob < length z \<longrightarrow>
            (\<exists>st'. observe_loop (observe_Linrz_uncorrelated_body tk hm z) (length z) ob rcondmin st
                     = (Inl (Numeric_exception ''S not PD in observe''), st') \<and> x st' = x st))
       \<and> (\<forall>tk0 st0 gain0 h0 r0. x (snd (snd (snd (observeUD tk0 st0 gain0 h0 r0)))) = x st0)"
proof (intro conjI)
  show "\<exists>alpha' st'. observeUD tk st gain hrow r = (- 1, gain, alpha', st') \<and> alpha' \<le> 0
            \<and> x st' = x st \<and> (\<forall>i c. j \<le> c \<longrightarrow> UD st' ! i ! c = UD st ! i ! c)"
  proof -
    from observeUD_singular_aux[OF ab j sing, of tk gain] obtain alpha' st' where
      o: "observeUD tk st gain hrow r = (- 1, gain, alpha', st')" and a: "alpha' \<le> 0"
      and m: "x st' = x st"
      by auto
    from observeUD_singular_cols[OF ab j sing, of _ tk gain] o
    have "\<forall>i c. j \<le> c \<longrightarrow> UD st' ! i ! c = UD st ! i ! c" by simp
    with o a m show ?thesis by blast
  qed
  show "\<exists>st'. observe_update tk hrow r zpred ob st
                   = (Inl (Numeric_exception ''S not PD in observe''), st') \<and> x st' = x st"
    using observeUD_singular_aux[OF ab j sing, of tk "w st"]
    by (auto simp: observe_update_def check_PSD_def)
  show "hrow = Hx hm ! ob \<and> r = Zv hm ! ob \<and> 0 \<le> r \<and> ob < length z \<longrightarrow>
            (\<exists>st'. observe_loop (observe_Linrz_uncorrelated_body tk hm z) (length z) ob rcondmin st
                     = (Inl (Numeric_exception ''S not PD in observe''), st') \<and> x st' = x st)"
  proof
    assume H: "hrow = Hx hm ! ob \<and> r = Zv hm ! ob \<and> 0 \<le> r \<and> ob < length z"
    define st1 where "st1 = st\<lparr>znorm := normalise hm z (h hm (x st)), h1 := Hx hm ! ob\<rparr>"
    have ab1: "observeUD_ab (UD st1) (length (UD st1)) (hrow, b st1) = (av, bv)"
      using ab by (simp add: st1_def)
    have j1: "j < length (UD st1)" using j by (simp add: st1_def)
    from observeUD_singular_aux[OF ab1 j1 sing, of tk "w st1"]
    have "\<exists>st'. observe_update tk hrow r (h hm (x st)) ob st1
                   = (Inl (Numeric_exception ''S not PD in observe''), st') \<and> x st' = x st"
      by (auto simp: observe_update_def check_PSD_def st1_def)
    then obtain st' where
      "observe_Linrz_uncorrelated_body tk hm z ob st = (Inl (Numeric_exception ''S not PD in observe''), st')"
      "x st' = x st"
      using H by (auto simp: observe_Linrz_uncorrelated_body_def Let_def st1_def)
    with H show "\<exists>st'. observe_loop (observe_Linrz_uncorrelated_body tk hm z) (length z) ob rcondmin st
                     = (Inl (Numeric_exception ''S not PD in observe''), st') \<and> x st' = x st"
      by (simp add: observe_loop.simps[of _ _ ob])
  qed
  show "\<forall>tk0 st0 gain0 h0 r0. x (snd (snd (snd (observeUD tk0 st0 gain0 h0 r0)))) = x st0"
    by (simp add: observeUD_frame_x)
qed

theorem observeUD_singular_innovation_witness:
  "observeUD_ab (UD singular_filter) (length (UD singular_filter)) ([0, 1], b singular_filter)
     = ([0, 1], [0, - 5])
   \<and> (1::nat) < length (UD singular_filter)
   \<and> 0 < observeUD_alpha [0, 1] [0, - 5] 1 0
   \<and> observeUD_alpha [0, 1] [0, - 5] 1 1 \<le> 0
   \<and> (\<exists>alpha' st'. observeUD example_toolkit singular_filter [0, 0] [0, 1] 1
                       = (- 1, [0, 0], alpha', st') \<and> alpha' \<le> 0 \<and> x st' = x singular_filter
                     \<and> UD st' ! 1 ! 1 = UD singular_filter ! 1 ! 1)
   \<and> (\<exists>st'. observe_loop (observe_Linrz_uncorrelated_body example_toolkit example_observe_model
                             [1, 2]) (length [1, 2 :: real]) 1 (Float_max example_toolkit)
                 singular_filter
               = (Inl (Numeric_exception ''S not PD in observe''), st')
             \<and> x st' = x singular_filter)"
proof -
  have ab: "observeUD_ab (UD singular_filter) (length (UD singular_filter))
              ([0, 1], b singular_filter) = ([0, 1], [0, - 5])"
    by (simp add: singular_filter_def example_filter_def observeUD_ab_def observeUD_b_def observeUD_a_def)
  have j: "(1::nat) < length (UD singular_filter)"
    by (simp add: singular_filter_def example_filter_def)
  have sing: "observeUD_alpha [0, 1] [0, - 5] 1 1 \<le> 0"
    by simp
  have model: "[0, 1] = Hx example_observe_model ! 1 \<and> 1 = Zv example_observe_model ! 1
                 \<and> (0::real) \<le> 1 \<and> (1::nat) < length [1, 2 :: real]"
    by (simp add: example_observe_model_def)
  from observeUD_singular_innovation [OF ab j sing, of example_toolkit "[0, 0]" "[0, 0]" 1
      example_observe_model "[1, 2]" "Float_max example_toolkit"] model ab j sing
  show ?thesis by (simp del: One_nat_def) blast
qed

subsection \<open>Failures of predict, observe and init\<close>

lemma predictGq_q_too_long:
  "q_max st < length qv \<Longrightarrow>
   predictGq tk st Fxm Gm qv
     = (Inl (Logic_exception ''Predict model q larger than preallocated space''), st)"
  by (simp add: predictGq_def Let_def)

lemma predict_q_too_long:
  "q_max st < length (q fm) \<Longrightarrow>
   predict tk st fm
     = (Inl (Logic_exception ''Predict model q larger than preallocated space''),
        st\<lparr>x := f fm (x st)\<rparr>)"
  by (simp add: predict_def predictGq_q_too_long)

text \<open>
  C4. When the predict model's noise vector \<open>q\<close> is longer than \<open>q_max\<close>, \<open>predictGq\<close>
  raises the logic failure before it has written anything: the filter is returned as it
  was passed. \<open>predict\<close> raises the same failure and its \<open>UD\<close> factor is the one it
  started with.
\<close>

theorem predict_q_capacity:
  assumes "q_max st < length (q fm)"
  shows "predictGq tk st (Fx fm) (G fm) (q fm)
           = (Inl (Logic_exception ''Predict model q larger than preallocated space''), st)
       \<and> fst (predict tk st fm)
           = Inl (Logic_exception ''Predict model q larger than preallocated space'')
       \<and> UD (snd (predict tk st fm)) = UD st"
  using assms by (simp add: predict_q_too_long predictGq_q_too_long)

theorem predict_q_capacity_witness:
  "q_max example_filter < length (q oversized_predict_model)
   \<and> fst (predict example_toolkit example_filter oversized_predict_model)
       = Inl (Logic_exception ''Predict model q larger than preallocated space'')
   \<and> UD (snd (predict example_toolkit example_filter oversized_predict_model))
       = [[4, 1 / 2, 0], [0, 1, 0]]"
proof -
  have h: "q_max example_filter < length (q oversized_predict_model)"
    by (simp add: example_filter_def oversized_predict_model_def)
  from predict_q_capacity [OF h, of example_toolkit] h show ?thesis
    by (simp add: example_filter_def)
qed

text \<open>
  C10. \<open>predict\<close> assigns \<open>x = f.f(x)\<close> before \<open>predictGq\<close> checks the size of \<open>q\<close>:
  when \<open>q\<close> is longer than \<open>q_max\<close> the logic failure is raised with the state mean
  already advanced to \<open>f(x)\<close> and everything else, the \<open>UD\<close> factor included, unchanged.
\<close>

theorem predict_mean_advanced_before_capacity_check:
  assumes "q_max st < length (q fm)"
  shows "predict tk st fm
           = (Inl (Logic_exception ''Predict model q larger than preallocated space''),
              st\<lparr>x := f fm (x st)\<rparr>)"
  using assms by (rule predict_q_too_long)

theorem predict_mean_advanced_before_capacity_check_witness:
  "q_max example_filter < length (q oversized_predict_model)
   \<and> x example_filter = [0, 0]
   \<and> predict example_toolkit example_filter oversized_predict_model
       = (Inl (Logic_exception ''Predict model q larger than preallocated space''),
          example_filter\<lparr>x := [1, 1]\<rparr>)"
proof -
  have h: "q_max example_filter < length (q oversized_predict_model)"
    by (simp add: example_filter_def oversized_predict_model_def)
  from predict_mean_advanced_before_capacity_check [OF h, of example_toolkit] h show ?thesis
    by (simp add: example_filter_def oversized_predict_model_def)
qed

text \<open>
  C5. \<open>observe\<close> on a correlated-noise model that is only linearised raises a logic
  failure at once; the state mean and the \<open>UD\<close> factor are as before the call.
\<close>

theorem observe_Linrz_correlated_unsupported:
  "fst (observe_Linrz_correlated tk st hm z)
     = Inl (Logic_exception ''observe no Linrz_correlated_observe_model solution'')
   \<and> x (snd (observe_Linrz_correlated tk st hm z)) = x st
   \<and> UD (snd (observe_Linrz_correlated tk st hm z)) = UD st"
  by (simp add: observe_Linrz_correlated_def)

text \<open>
  C8 as stated does not hold: for a covariance with a negative variance \<open>init\<close> fails with
  the numeric failure \<open>Initial X not PSD\<close>, which is neither a logic failure nor the
  message of the claim.
\<close>

theorem init_not_PSD_counterexample:
  "fst (init example_toolkit indefinite_filter) = Inl (Numeric_exception ''Initial X not PSD'')
   \<and> fst (init example_toolkit indefinite_filter)
       \<noteq> Inl (Logic_exception ''Initial state covariance not positive-semi-definite'')"
  by (simp add: init_def indefinite_filter_def example_filter_def example_toolkit_def
      assign_sub_matrix_def mat_set_def example_rcond_def check_PSD_def Let_def)

text \<open>
  C8, amended. When \<open>check_PSD\<close> does not accept the rcond of the factorisation of the
  supplied covariance, \<open>init\<close> fails with a numeric failure raised by the Conditioning
  Policy, its message is \<open>Initial X not PSD\<close>, and \<open>UD\<close> holds what the factorisation
  left.
\<close>

theorem init_not_PSD:
  assumes "UdUfactor tk (assign_sub_matrix (UD st) (length (UD st)) (X st)) (length (UD st))
             = (UD', rcond)"
    and "check_PSD (rclimit st) rcond ''Initial X not PSD'' \<noteq> Inr ()"
  shows "init tk st = (Inl (Numeric_exception ''Initial X not PSD''), st\<lparr>UD := UD'\<rparr>)"
  using assms by (simp add: init_def check_PSD_def split: if_splits)

theorem init_not_PSD_witness:
  "UdUfactor example_toolkit
     (assign_sub_matrix (UD indefinite_filter) (length (UD indefinite_filter))
        (X indefinite_filter)) (length (UD indefinite_filter))
     = ([[- 1, 0, 0], [0, 1, 0]], - 1)
   \<and> check_PSD (rclimit indefinite_filter) (- 1) ''Initial X not PSD'' \<noteq> Inr ()
   \<and> init example_toolkit indefinite_filter
       = (Inl (Numeric_exception ''Initial X not PSD''),
          indefinite_filter\<lparr>UD := [[- 1, 0, 0], [0, 1, 0]]\<rparr>)"
proof -
  have f: "UdUfactor example_toolkit
     (assign_sub_matrix (UD indefinite_filter) (length (UD indefinite_filter))
        (X indefinite_filter)) (length (UD indefinite_filter))
     = ([[- 1, 0, 0], [0, 1, 0]], - 1)"
    by (simp add: indefinite_filter_def example_filter_def example_toolkit_def
      assign_sub_matrix_def mat_set_def example_rcond_def Let_def)
  have c: "check_PSD (rclimit indefinite_filter) (- 1) ''Initial X not PSD'' \<noteq> Inr ()"
    by (simp add: check_PSD_def)
  from init_not_PSD [OF f c] f c show ?thesis by simp
qed

subsection \<open>The MWG-S sweep of predictGq\<close>

lemma MWGS_after_tail:
  "k \<le> j0 \<Longrightarrow> MWGS_after N j0 k st = Some st' \<Longrightarrow> MWGS N j0 st = MWGS N (j0 - k) st'"
proof (induction k arbitrary: st')
  case 0
  then show ?case by simp
next
  case (Suc k)
  from Suc.prems(2) obtain st1 where
    a: "MWGS_after N j0 k st = Some st1" and r: "MWGS_row N (j0 - k) st1 = (True, st')"
    by (auto split: option.splits prod.splits bool.splits)
  from Suc.prems(1) have eq: "j0 - k = Suc (j0 - Suc k)" by simp
  from Suc.prems(1) a have "MWGS N j0 st = MWGS N (j0 - k) st1"
    by (intro Suc.IH) simp_all
  also have "\<dots> = MWGS N (j0 - Suc k) st'"
    using r unfolding eq by simp
  finally show ?case .
qed

lemma MWGS_scan_row_iff:
  "MWGS_scan_row UDk dvv is \<longleftrightarrow> (\<forall>i\<in>set is. UDk ! i * dvv ! i = 0)"
  by (induction "is") (simp_all add: Let_def)

lemma MWGS_scan_iff:
  "MWGS_scan N UDm dvv ks \<longleftrightarrow> (\<forall>k\<in>set ks. \<forall>i<N. UDm ! k ! i * dvv ! i = 0)"
  by (induction ks) (auto simp: MWGS_scan_row_iff)

lemma mat_set_other_row: "k \<noteq> i \<Longrightarrow> mat_set M i j val ! k = M ! k"
  by (simp add: mat_set_def)

lemma MWGS_fail_row: "MWGS_row N j st = (False, st') \<Longrightarrow> MWGS N j st = (False, st')"
  by (cases j) simp_all

text \<open>
  C6. Let the MWG-S sweep of \<open>predictGq\<close> have reached row \<open>j\<close> in state \<open>stj\<close>, and
  let \<open>e\<close> be the pivot it computes there. If \<open>e < 0\<close>, \<open>predictGq\<close> returns \<open>-1\<close> and
  the factor is the one the row was entered with: nothing is eliminated any more. If
  \<open>e = 0\<close> and some product \<open>UDk[i] * dv[i]\<close> of a row \<open>k < j\<close> is not zero,
  \<open>predictGq\<close> returns \<open>-1\<close> too, having written only \<open>UD(j,j) = 0\<close>. If \<open>e = 0\<close> and
  all these products are zero, the row is accepted: the sweep goes on to the next row
  with \<open>UD(j,j) = 0\<close> and no row eliminated.
\<close>

theorem predictGq_MWGS_pivot:
  assumes n: "0 < length (x st)" and q: "length qv \<le> q_max st"
    and N: "N = length (x st) + length qv"
    and k: "k < length (x st)" and j: "j = length (x st) - 1 - k"
    and reach: "MWGS_after N (length (x st) - 1) k (predictGq_prepare Fxm Gm qv st) = Some stj"
    and piv: "MWGS_pivot N j stj = (vv, dvv, e)"
  shows "(e < 0 \<longrightarrow>
            predictGq tk st Fxm Gm qv = (Inr (- 1), stj\<lparr>v := vv, dv := dvv\<rparr>))
       \<and> (e = 0 \<and> (\<exists>k'<j. \<exists>i<N. UD stj ! k' ! i * dvv ! i \<noteq> 0) \<longrightarrow>
            predictGq tk st Fxm Gm qv
              = (Inr (- 1), stj\<lparr>v := vv, dv := dvv, UD := mat_set (UD stj) j j 0\<rparr>))
       \<and> (e = 0 \<and> (\<forall>k'<j. \<forall>i<N. UD stj ! k' ! i * dvv ! i = 0) \<longrightarrow>
            MWGS_after N (length (x st) - 1) (Suc k) (predictGq_prepare Fxm Gm qv st)
              = Some (stj\<lparr>v := vv, dv := dvv, UD := mat_set (UD stj) j j 0\<rparr>))"
proof -
  from k have kle: "k \<le> length (x st) - 1" by simp
  have loop: "MWGS N (length (x st) - 1) (predictGq_prepare Fxm Gm qv st) = MWGS N j stj"
    using MWGS_after_tail[OF kle reach] j by simp
  have neg: "predictGq tk st Fxm Gm qv = (Inr (- 1), st')" if "MWGS_row N j stj = (False, st')" for st'
    using n q N loop MWGS_fail_row[OF that] by (simp add: predictGq_def Let_def)
  have scan: "MWGS_scan N (mat_set (UD stj) j j 0) dvv [0..<j]
                \<longleftrightarrow> (\<forall>k'<j. \<forall>i<N. UD stj ! k' ! i * dvv ! i = 0)"
    by (auto simp: MWGS_scan_iff mat_set_other_row)
  have "e < 0 \<longrightarrow> predictGq tk st Fxm Gm qv = (Inr (- 1), stj\<lparr>v := vv, dv := dvv\<rparr>)"
  proof
    assume "e < 0"
    with piv have "MWGS_row N j stj = (False, stj\<lparr>v := vv, dv := dvv\<rparr>)"
      by (simp add: MWGS_row_def)
    then show "predictGq tk st Fxm Gm qv = (Inr (- 1), stj\<lparr>v := vv, dv := dvv\<rparr>)"
      by (rule neg)
  qed
  moreover
  have "e = 0 \<and> (\<exists>k'<j. \<exists>i<N. UD stj ! k' ! i * dvv ! i \<noteq> 0) \<longrightarrow>
            predictGq tk st Fxm Gm qv
              = (Inr (- 1), stj\<lparr>v := vv, dv := dvv, UD := mat_set (UD stj) j j 0\<rparr>)"
  proof
    assume A: "e = 0 \<and> (\<exists>k'<j. \<exists>i<N. UD stj ! k' ! i * dvv ! i \<noteq> 0)"
    with scan have "\<not> MWGS_scan N (mat_set (UD stj) j j 0) dvv [0..<j]" by blast
    with piv A have "MWGS_row N j stj
        = (False, stj\<lparr>v := vv, dv := dvv, UD := mat_set (UD stj) j j 0\<rparr>)"
      by (simp add: MWGS_row_def Let_def)
    then show "predictGq tk st Fxm Gm qv
              = (Inr (- 1), stj\<lparr>v := vv, dv := dvv, UD := mat_set (UD stj) j j 0\<rparr>)"
      by (rule neg)
  qed
  moreover
  have "e = 0 \<and> (\<forall>k'<j. \<forall>i<N. UD stj ! k' ! i * dvv ! i = 0) \<longrightarrow>
            MWGS_after N (length (x st) - 1) (Suc k) (predictGq_prepare Fxm Gm qv st)
              = Some (stj\<lparr>v := vv, dv := dvv, UD := mat_set (UD stj) j j 0\<rparr>)"
  proof
    assume A: "e = 0 \<and> (\<forall>k'<j. \<forall>i<N. UD stj ! k' ! i * dvv ! i = 0)"
    with scan have "MWGS_scan N (mat_set (UD stj) j j 0) dvv [0..<j]" by blast
    with piv A have "MWGS_row N j stj
        = (True, stj\<lparr>v := vv, dv := dvv, UD := mat_set (UD stj) j j 0\<rparr>)"
      by (simp add: MWGS_row_def Let_def)
    with reach j show "MWGS_after N (length (x st) - 1) (Suc k) (predictGq_prepare Fxm Gm qv st)
              = Some (stj\<lparr>v := vv, dv := dvv, UD := mat_set (UD stj) j j 0\<rparr>)"
      by simp
  qed
  ultimately show ?thesis by blast
qed

lemmas predictGq_eval = predictGq_prepare_def predictGq_augment_def predictGq_FxU_def
  predictGq_FxU_col_def mat_set_def MWGS_row_def MWGS_pivot_def MWGS_eliminate_def
  example_filter_def Let_def eval_nat_numeral

theorem predictGq_MWGS_pivot_witness:
  "MWGS_after 3 1 1 (predictGq_prepare (Fx negative_predict_model) (G negative_predict_model)
       (q negative_predict_model) example_filter)
     = Some (example_filter\<lparr>UD := [[1, 0, 1], [1 / 2, 1, 0]], d := [4, 1, - 10],
               dv := [0, 1, 0], v := [0, 1, 0]\<rparr>)
   \<and> MWGS_pivot 3 0 (example_filter\<lparr>UD := [[1, 0, 1], [1 / 2, 1, 0]], d := [4, 1, - 10],
               dv := [0, 1, 0], v := [0, 1, 0]\<rparr>) = ([1, 0, 1], [4, 0, - 10], - 6)
   \<and> predictGq example_toolkit example_filter (Fx negative_predict_model)
         (G negative_predict_model) (q negative_predict_model)
       = (Inr (- 1), example_filter\<lparr>UD := [[1, 0, 1], [1 / 2, 1, 0]], d := [4, 1, - 10],
               dv := [4, 0, - 10], v := [1, 0, 1]\<rparr>)
   \<and> MWGS_pivot 3 1 (predictGq_prepare (Fx semidefinite_predict_model)
         (G semidefinite_predict_model) (q semidefinite_predict_model) example_filter)
       = ([0, 1, 1], [0, 1, - 1], 0)
   \<and> predictGq example_toolkit example_filter (Fx semidefinite_predict_model)
         (G semidefinite_predict_model) (q semidefinite_predict_model)
       = (Inr (- 1), example_filter\<lparr>UD := [[1, 1 / 2, 1], [0, 0, 1]], d := [4, 1, - 1],
               dv := [0, 1, - 1], v := [0, 1, 1]\<rparr>)"
proof -
  let ?neg = "predictGq_prepare (Fx negative_predict_model) (G negative_predict_model)
       (q negative_predict_model) example_filter"
  let ?st1 = "example_filter\<lparr>UD := [[1, 0, 1], [1 / 2, 1, 0]], d := [4, 1, - 10],
               dv := [0, 1, 0], v := [0, 1, 0]\<rparr>"
  let ?semi = "predictGq_prepare (Fx semidefinite_predict_model)
         (G semidefinite_predict_model) (q semidefinite_predict_model) example_filter"
  have n: "0 < length (x example_filter)" and k1: "1 < length (x example_filter)"
    and k0: "0 < length (x example_filter)"
    by (simp_all add: example_filter_def)
  have q1: "length (q negative_predict_model) \<le> q_max example_filter"
    and q2: "length (q semidefinite_predict_model) \<le> q_max example_filter"
    by (simp_all add: example_filter_def negative_predict_model_def semidefinite_predict_model_def)
  have N1: "3 = length (x example_filter) + length (q negative_predict_model)"
    and N2: "3 = length (x example_filter) + length (q semidefinite_predict_model)"
    by (simp_all add: example_filter_def negative_predict_model_def semidefinite_predict_model_def)
  have j1: "0 = length (x example_filter) - 1 - 1" and j2: "1 = length (x example_filter) - 1 - 0"
    by (simp_all add: example_filter_def)
  have prep1: "?neg = example_filter\<lparr>UD := [[1, 1 / 2, 1], [0, 1, 0]], d := [4, 1, - 10]\<rparr>"
    by (simp add: predictGq_eval negative_predict_model_def)
  have r1: "MWGS_after 3 (length (x example_filter) - 1) 1 ?neg = Some ?st1"
    unfolding prep1 by (simp add: predictGq_eval)
  have p1: "MWGS_pivot 3 0 ?st1 = ([1, 0, 1], [4, 0, - 10], - 6)"
    by (simp add: predictGq_eval)
  have prep2: "?semi = example_filter\<lparr>UD := [[1, 1 / 2, 1], [0, 1, 1]], d := [4, 1, - 1]\<rparr>"
    by (simp add: predictGq_eval semidefinite_predict_model_def)
  have r2: "MWGS_after 3 (length (x example_filter) - 1) 0 ?semi = Some ?semi"
    by simp
  have p2: "MWGS_pivot 3 1 ?semi = ([0, 1, 1], [0, 1, - 1], 0)"
    unfolding prep2 by (simp add: predictGq_eval)
  have c2: "\<exists>k'<1. \<exists>i<3. UD ?semi ! k' ! i * [0, 1, - 1] ! i \<noteq> (0::real)"
    unfolding prep2 by (auto simp: example_filter_def intro!: exI[of _ 0] exI[of _ 1])
  note A = predictGq_MWGS_pivot [OF n q1 N1 k1 j1 r1 p1, of example_toolkit]
  note B = predictGq_MWGS_pivot [OF n q2 N2 k0 j2 r2 p2, of example_toolkit]
  have a: "predictGq example_toolkit example_filter (Fx negative_predict_model)
         (G negative_predict_model) (q negative_predict_model)
       = (Inr (- 1), ?st1\<lparr>v := [1, 0, 1], dv := [4, 0, - 10]\<rparr>)"
    using A by simp
  have b: "predictGq example_toolkit example_filter (Fx semidefinite_predict_model)
         (G semidefinite_predict_model) (q semidefinite_predict_model)
       = (Inr (- 1), ?semi\<lparr>v := [0, 1, 1], dv := [0, 1, - 1],
            UD := mat_set (UD ?semi) 1 1 0\<rparr>)"
    using B c2 by blast
  show ?thesis
    using r1 p1 p2 a b unfolding prep2
    by (simp add: example_filter_def mat_set_def)
qed

subsection \<open>The sequential observe loops\<close>

lemma observeUD_frame:
  "\<exists>av bv U. snd (snd (snd (observeUD tk st gain hrow r))) = st\<lparr>a := av, b := bv, UD := U\<rparr>"
proof -
  have *: "st\<lparr>a := av, b := bv\<rparr> = st\<lparr>a := av, b := bv, UD := UD st\<rparr>" for av bv
    by simp
  show ?thesis
    unfolding observeUD_def Let_def
    by (auto split: prod.split intro: *)
qed

lemma observeUD_rcond:
  "fst (observeUD tk st gain hrow r) = - 1
     \<or> (\<exists>M n. fst (observeUD tk st gain hrow r) = UdUrcond tk M n)"
  unfolding observeUD_def Let_def by (auto split: prod.split)

lemma observe_update_fail:
  assumes "observe_update tk hrow r zpred ob st = (Inl e, st')"
  shows "x st' = x st"
proof -
  obtain rcond gain S st1 where o: "observeUD tk st (w st) hrow r = (rcond, gain, S, st1)"
    by (metis prod_cases4)
  from observeUD_frame[of tk st "w st" hrow r] o have "x st1 = x st" by auto
  with assms o show ?thesis
    by (auto simp: observe_update_def Let_def split: sum.splits)
qed

lemma observe_update_ok:
  assumes "observe_update tk hrow r zpred ob st = (Inr rc, st')"
  shows "check_PSD (rclimit st) rc ''S not PD in observe'' = Inr () \<and> rclimit st' = rclimit st
       \<and> (\<exists>M n. rc = UdUrcond tk M n)"
proof -
  obtain rcond gain S st1 where o: "observeUD tk st (w st) hrow r = (rcond, gain, S, st1)"
    by (metis prod_cases4)
  from observeUD_frame[of tk st "w st" hrow r] o have f: "rclimit st1 = rclimit st" by auto
  from assms o f have c: "check_PSD (rclimit st) rc ''S not PD in observe'' = Inr ()"
    and r: "rclimit st' = rclimit st" and rc: "rc = rcond"
    by (auto simp: observe_update_def Let_def split: sum.splits)
  from c have "rc \<noteq> - 1" by (auto simp: check_PSD_def split: if_splits)
  with observeUD_rcond[of tk st "w st" hrow r] o rc have "\<exists>M n. rc = UdUrcond tk M n" by auto
  with c r show ?thesis by simp
qed

lemma observe_body_fail:
  assumes "body = observe_Linrz_uncorrelated_body tk hm z
         \<or> body = observe_UD_sequential_body tk hs z
         \<or> body = observe_Linear_correlated_body tk"
    and "body ob st = (Inl e, st')"
  shows "x st' = x st"
  using assms
  by (auto simp: observe_Linrz_uncorrelated_body_def observe_UD_sequential_body_def
      observe_Linear_correlated_body_def Let_def
      split: if_splits prod.splits dest!: observe_update_fail)

lemma observe_body_ok:
  assumes "body = observe_Linrz_uncorrelated_body tk hm z
         \<or> body = observe_UD_sequential_body tk hs z
         \<or> body = observe_Linear_correlated_body tk"
    and "body ob st = (Inr rc, st')"
  shows "check_PSD (rclimit st) rc ''S not PD in observe'' = Inr () \<and> rclimit st' = rclimit st
       \<and> (\<exists>M n. rc = UdUrcond tk M n)"
  using assms
  by (auto simp: observe_Linrz_uncorrelated_body_def observe_UD_sequential_body_def
      observe_Linear_correlated_body_def Let_def
      split: if_splits prod.splits dest!: observe_update_ok)

lemma observe_loop_after:
  "k \<le> z_size \<Longrightarrow> observe_after body k st0 = Some (rcs, st) \<Longrightarrow>
   observe_loop body z_size 0 rcondmin st0 = observe_loop body z_size k (fold min rcs rcondmin) st"
proof (induction k arbitrary: rcs st)
  case 0
  then show ?case by simp
next
  case (Suc k)
  from Suc.prems(2) obtain rcs' st1 rc where
    a: "observe_after body k st0 = Some (rcs', st1)" and b: "body k st1 = (Inr rc, st)"
    and r: "rcs = rcs' @ [rc]"
    by (auto split: option.splits prod.splits sum.splits)
  have m: "(if rc < m then rc else m) = min rc m" for m :: real
    by (simp add: min_def)
  from Suc.prems(1) a
  have "observe_loop body z_size 0 rcondmin st0
          = observe_loop body z_size k (fold min rcs' rcondmin) st1"
    by (intro Suc.IH) simp_all
  also have "\<dots> = observe_loop body z_size (Suc k) (fold min rcs rcondmin) st"
    using Suc.prems(1) b r by (simp add: observe_loop.simps[of body z_size k] m)
  finally show ?case .
qed

lemma observe_loop_fail:
  assumes "ob < z_size" and "observe_after body ob st0 = Some (rcs, st_o)"
    and "body ob st_o = (Inl e, st_f)"
  shows "observe_loop body z_size 0 rcondmin st0 = (Inl e, st_f)"
proof -
  from assms(1,2) have "observe_loop body z_size 0 rcondmin st0
      = observe_loop body z_size ob (fold min rcs rcondmin) st_o"
    by (intro observe_loop_after) simp_all
  also have "\<dots> = (Inl e, st_f)"
    using assms(1,3) by (simp add: observe_loop.simps[of body z_size ob])
  finally show ?thesis .
qed

lemma observe_loop_ok:
  assumes "observe_loop body z_size 0 rcondmin st0 = (Inr r, st')"
  shows "\<exists>rcs. observe_after body z_size st0 = Some (rcs, st') \<and> length rcs = z_size
           \<and> r = fold min rcs rcondmin"
proof -
  have "k \<le> z_size \<Longrightarrow> \<exists>rcs st. observe_after body k st0 = Some (rcs, st) \<and> length rcs = k" for k
  proof (induction k)
    case 0
    then show ?case by simp
  next
    case (Suc k)
    then obtain rcs st where a: "observe_after body k st0 = Some (rcs, st)" and l: "length rcs = k"
      by auto
    from Suc.prems a have "observe_loop body z_size 0 rcondmin st0
        = observe_loop body z_size k (fold min rcs rcondmin) st"
      by (intro observe_loop_after) simp_all
    with assms Suc.prems obtain rc st1 where "body k st = (Inr rc, st1)"
      by (auto simp: observe_loop.simps[of body z_size k] split: prod.splits sum.splits)
    with a l show ?case by simp
  qed
  then obtain rcs st where a: "observe_after body z_size st0 = Some (rcs, st)"
    and l: "length rcs = z_size"
    by blast
  have "observe_loop body z_size 0 rcondmin st0
      = observe_loop body z_size z_size (fold min rcs rcondmin) st"
    using a by (intro observe_loop_after) simp_all
  with assms have "r = fold min rcs rcondmin" "st' = st"
    by (simp_all add: observe_loop.simps[of body z_size z_size])
  with a l show ?thesis by simp
qed

lemma observe_variant_loop:
  assumes "(R = observe_Linrz_uncorrelated tk st hm z
            \<and> body = observe_Linrz_uncorrelated_body tk hm z
            \<and> st0 = observe_size st (length z))
         \<or> (R = observe_UD_sequential tk st hs z
            \<and> body = observe_UD_sequential_body tk hs z
            \<and> st0 = observe_size st (length z))
         \<or> (R = observe_Linear_correlated tk st hl z
            \<and> body = observe_Linear_correlated_body tk
            \<and> observe_Linear_correlated_decorrelate tk st hl z = (Inr (), st0))"
  shows "R = observe_loop body (length z) 0 (Float_max tk) st0"
  using assms
  by (auto simp: observe_Linrz_uncorrelated_def observe_UD_sequential_def
      observe_Linear_correlated_def Let_def)

lemma observeUD_a_fold_nth:
  "k \<noteq> j \<Longrightarrow>
   fold (\<lambda>k av'. av'[j := av' ! j + UDm ! k ! j * av' ! k]) [0..<m] av ! k = av ! k"
  by (induction m) simp_all

lemma observeUD_a_nth: "k \<noteq> j \<Longrightarrow> observeUD_a UDm j av ! k = av ! k"
  unfolding observeUD_a_def by (rule observeUD_a_fold_nth)

lemma observeUD_b_nth:
  "k \<noteq> j \<Longrightarrow> fst (observeUD_b UDm j (av, bv)) ! k = av ! k
                \<and> snd (observeUD_b UDm j (av, bv)) ! k = bv ! k"
  by (simp add: observeUD_b_def Let_def observeUD_a_nth)

lemma observeUD_b_length: "length (snd (observeUD_b UDm j (av, bv))) = length bv"
  by (simp add: observeUD_b_def Let_def)

lemma observeUD_b_fold_nth:
  "k \<notin> set js \<Longrightarrow> fst (fold (observeUD_b UDm) js (av, bv)) ! k = av ! k
                      \<and> snd (fold (observeUD_b UDm) js (av, bv)) ! k = bv ! k"
proof (induction js arbitrary: av bv)
  case Nil
  then show ?case by simp
next
  case (Cons j js)
  obtain av1 bv1 where s: "observeUD_b UDm j (av, bv) = (av1, bv1)" by (metis surj_pair)
  from Cons.prems have "k \<noteq> j" "k \<notin> set js" by auto
  with Cons.IH[of av1 bv1] observeUD_b_nth[of k j UDm av bv] s show ?case by simp
qed

lemma observeUD_b_fold_at:
  "distinct js \<Longrightarrow> j \<in> set js \<Longrightarrow> j < length bv \<Longrightarrow>
   snd (fold (observeUD_b UDm) js (av, bv)) ! j
     = UDm ! j ! j * fst (fold (observeUD_b UDm) js (av, bv)) ! j"
proof (induction js arbitrary: av bv)
  case Nil
  then show ?case by simp
next
  case (Cons i js)
  obtain av1 bv1 where s: "observeUD_b UDm i (av, bv) = (av1, bv1)" by (metis surj_pair)
  from observeUD_b_length[of UDm i av bv] s have len: "length bv1 = length bv" by simp
  show ?case
  proof (cases "j = i")
    case True
    with Cons.prems(1) have "j \<notin> set js" by simp
    from observeUD_b_fold_nth[OF this, of UDm av1 bv1]
    have "fst (fold (observeUD_b UDm) js (av1, bv1)) ! j = av1 ! j"
      and "snd (fold (observeUD_b UDm) js (av1, bv1)) ! j = bv1 ! j"
      by simp_all
    moreover from s True Cons.prems(3) have "bv1 ! j = UDm ! j ! j * av1 ! j"
      by (auto simp: observeUD_b_def Let_def)
    ultimately show ?thesis using s by simp
  next
    case False
    with Cons.prems have "distinct js" "j \<in> set js" "j < length bv1"
      by (simp_all add: len)
    from Cons.IH[OF this, of av1] s show ?thesis by simp
  qed
qed

lemma observeUD_ab_b:
  assumes "observeUD_ab UDm n (hrow, bv0) = (av, bv)" and "j < n" and "n \<le> length bv0"
  shows "bv ! j = UDm ! j ! j * av ! j"
proof -
  obtain av1 bv1 where f: "fold (observeUD_b UDm) (rev [1..<n]) (hrow, bv0) = (av1, bv1)"
    by (metis surj_pair)
  with assms(1) have av: "av = av1" and bv: "bv = bv1[0 := UDm ! 0 ! 0 * av1 ! 0]"
    by (auto simp: observeUD_ab_def)
  have len: "length bv1 = length bv0"
  proof -
    have "length (snd (fold (observeUD_b UDm) js (a0, b0))) = length b0" for js a0 b0
    proof (induction js arbitrary: a0 b0)
      case Nil
      then show ?case by simp
    next
      case (Cons i js)
      obtain a1 b1 where s: "observeUD_b UDm i (a0, b0) = (a1, b1)" by (metis surj_pair)
      with Cons.IH[of a1 b1] observeUD_b_length[of UDm i a0 b0] show ?case by simp
    qed
    from this[of "rev [1..<n]" hrow bv0] f show ?thesis by simp
  qed
  show ?thesis
  proof (cases j)
    case 0
    from assms(2,3) len have "0 < length bv1" by linarith
    with 0 show ?thesis by (simp add: av bv)
  next
    case (Suc j')
    with assms(2) have "j \<in> set (rev [1..<n])" by simp
    from observeUD_b_fold_at[OF _ this, of bv0 UDm hrow] assms(2,3) f
    have "bv1 ! j = UDm ! j ! j * av1 ! j" by simp
    with Suc show ?thesis by (simp add: av bv)
  qed
qed

lemma observeUD_singular_diagonal:
  assumes ab: "observeUD_ab (UD st) (length (UD st)) (hrow, b st) = (av, bv)"
    and len: "length (UD st) \<le> length (b st)"
    and j: "j < length (UD st)" and sing: "observeUD_alpha av bv r j \<le> 0"
  shows "UD (snd (snd (snd (observeUD tk st gain hrow r)))) = UD st
       \<or> (\<exists>k<length (UD st). UD (snd (snd (snd (observeUD tk st gain hrow r)))) ! k ! k < 0)"
proof (cases "observeUD_alpha av bv r 0 \<le> 0")
  case True
  with ab show ?thesis by (simp add: observeUD_def Let_def)
next
  case False
  from sing obtain k where k: "observeUD_alpha av bv r k \<le> 0"
    and least: "\<And>i. i < k \<Longrightarrow> \<not> observeUD_alpha av bv r i \<le> 0"
    using exists_least_iff[of "\<lambda>i. observeUD_alpha av bv r i \<le> 0"] by auto
  from least j sing have kj: "k \<le> j" by (meson not_le_imp_less)
  with j have kn: "k < length (UD st)" by simp
  from False k obtain k' where k': "k = Suc k'" by (cases k) auto
  from least[of k'] k' have "0 < observeUD_alpha av bv r k'" by simp
  with k k' have "bv ! k * av ! k < 0" by simp
  moreover from observeUD_ab_b[OF ab kn len] have "bv ! k = UD st ! k ! k * av ! k" .
  ultimately have "UD st ! k ! k * (av ! k * av ! k) < 0" by (simp add: mult.assoc)
  then have "UD st ! k ! k < 0"
    by (metis mult_less_0_iff not_square_less_zero)
  moreover from observeUD_singular_cols[OF ab kn k order_refl, of tk gain k]
  have "UD (snd (snd (snd (observeUD tk st gain hrow r)))) ! k ! k = UD st ! k ! k" .
  ultimately show ?thesis using kn by auto
qed

lemma observeUD_b_fold_length:
  "length (snd (fold (observeUD_b UDm) js (av, bv))) = length bv"
proof (induction js arbitrary: av bv)
  case Nil
  then show ?case by simp
next
  case (Cons i js)
  obtain a1 b1 where s: "observeUD_b UDm i (av, bv) = (a1, b1)" by (metis surj_pair)
  with Cons.IH[of a1 b1] observeUD_b_length[of UDm i av bv] show ?case by simp
qed

lemma observeUD_ab_length: "length (snd (observeUD_ab UDm n (hrow, bv))) = length bv"
  using observeUD_b_fold_length[of UDm "rev [1..<n]" hrow bv]
  by (cases "fold (observeUD_b UDm) (rev [1..<n]) (hrow, bv)") (simp add: observeUD_ab_def)

lemma mat_set_length: "length (mat_set M i j val) = length M"
  by (simp add: mat_set_def)

lemma observeUD_U_fold_length:
  "length (fst (fold (\<lambda>i (UDm, bv). let UD_jm1 = UDm ! i ! j in
              (mat_set UDm i j (UD_jm1 + lamda * bv ! i), bv[i := bv ! i + bv ! j * UD_jm1]))
       [0..<m] (UDm0, bv0))) = length UDm0
   \<and> length (snd (fold (\<lambda>i (UDm, bv). let UD_jm1 = UDm ! i ! j in
              (mat_set UDm i j (UD_jm1 + lamda * bv ! i), bv[i := bv ! i + bv ! j * UD_jm1]))
       [0..<m] (UDm0, bv0))) = length bv0"
  by (induction m) (auto simp: Let_def mat_set_length split: prod.split)

lemma observeUD_U_length:
  "observeUD_U j lamda (UDm, bv) = (UD', bv') \<Longrightarrow> length UD' = length UDm \<and> length bv' = length bv"
  using observeUD_U_fold_length[of j lamda j UDm bv] by (simp add: observeUD_U_def)

lemma observeUD_sweep_length:
  "observeUD_sweep n av j alpha gamma UDm bv = (ok, alpha', gamma', UD', bv') \<Longrightarrow>
   length UD' = length UDm \<and> length bv' = length bv"
proof (induction n av j alpha gamma UDm bv rule: observeUD_sweep.induct)
  case (1 n av j alpha gamma UDm bv)
  show ?case
  proof (cases "j < n \<and> \<not> alpha + bv ! j * av ! j \<le> 0")
    case False
    with "1.prems" show ?thesis
      by (auto simp: observeUD_sweep.simps[of n av j] Let_def split: if_splits)
  next
    case True
    obtain UD2 bv2 where U: "(UD2, bv2) = observeUD_U j (- av ! j * gamma)
          (mat_set UDm j j (UDm ! j ! j * (alpha * (1 / (alpha + bv ! j * av ! j)))), bv)"
      by (metis surj_pair)
    from True U[symmetric] "1.prems"
    have rec: "observeUD_sweep n av (Suc j) (alpha + bv ! j * av ! j)
                 (1 / (alpha + bv ! j * av ! j)) UD2 bv2 = (ok, alpha', gamma', UD', bv')"
      by (simp add: observeUD_sweep.simps[of n av j] Let_def)
    from True have jn: "j < n" and pos: "\<not> alpha + bv ! j * av ! j \<le> 0" by simp_all
    from "1.IH"[OF jn refl refl refl pos refl refl refl U rec]
      observeUD_U_length[OF U[symmetric]]
    show ?thesis by (simp add: mat_set_length)
  qed
qed

lemma observeUD_length:
  "length (UD (snd (snd (snd (observeUD tk st gain hrow r))))) = length (UD st)
   \<and> length (b (snd (snd (snd (observeUD tk st gain hrow r))))) = length (b st)"
proof -
  obtain av bv where ab: "observeUD_ab (UD st) (length (UD st)) (hrow, b st) = (av, bv)"
    by (metis surj_pair)
  from observeUD_ab_length[of "UD st" "length (UD st)" hrow "b st"] ab
  have lb: "length bv = length (b st)" by simp
  show ?thesis
  proof (cases "r + bv ! 0 * av ! 0 \<le> 0")
    case True
    with ab lb show ?thesis by (simp add: observeUD_def Let_def)
  next
    case False
    obtain ok alpha' gamma' UD2 bv2 where
      sw: "observeUD_sweep (length (UD st)) av 1 (r + bv ! 0 * av ! 0) (1 / (r + bv ! 0 * av ! 0))
             (mat_set (UD st) 0 0 (UD st ! 0 ! 0 * (r * (1 / (r + bv ! 0 * av ! 0))))) bv
           = (ok, alpha', gamma', UD2, bv2)"
      by (metis prod_cases5)
    from observeUD_sweep_length[OF sw] lb
    have "length UD2 = length (UD st)" "length bv2 = length (b st)"
      by (simp_all add: mat_set_length)
    with ab False sw show ?thesis by (simp add: observeUD_def Let_def)
  qed
qed

lemma observeUD_outcome:
  assumes len: "length (UD st) \<le> length (b st)"
    and o: "observeUD tk st gain hrow r = (rc, gain', S, st')"
  shows "UD st' = UD st \<or> (\<exists>k<length (UD st). UD st' ! k ! k < 0)
       \<or> rc = UdUrcond tk (UD st') (length (UD st))"
proof -
  obtain av bv where ab: "observeUD_ab (UD st) (length (UD st)) (hrow, b st) = (av, bv)"
    by (metis surj_pair)
  show ?thesis
  proof (cases "r + bv ! 0 * av ! 0 \<le> 0")
    case True
    with ab o show ?thesis by (auto simp: observeUD_def Let_def)
  next
    case False
    define alpha where "alpha = r + bv ! 0 * av ! 0"
    obtain ok alpha' gamma' UD2 bv2 where
      sw: "observeUD_sweep (length (UD st)) av 1 alpha (1 / alpha)
             (mat_set (UD st) 0 0 (UD st ! 0 ! 0 * (r * (1 / alpha)))) bv
           = (ok, alpha', gamma', UD2, bv2)"
      by (metis prod_cases5)
    show ?thesis
    proof (cases ok)
      case True
      with ab False sw o show ?thesis
        by (auto simp: observeUD_def Let_def alpha_def)
    next
      case nok: False
      with observeUD_sweep_ok[OF sw] obtain k where k: "1 \<le> k" "k < length (UD st)"
        and neg: "alpha + (\<Sum>i = 1..k. bv ! i * av ! i) \<le> 0"
        by (auto simp: not_less)
      from neg have "observeUD_alpha av bv r k \<le> 0"
        by (simp add: observeUD_alpha_sum alpha_def)
      from observeUD_singular_diagonal[OF ab len k(2) this, of tk gain] o
      show ?thesis by auto
    qed
  qed
qed

lemma observe_update_factor:
  assumes len: "length (UD st) \<le> length (b st)"
    and f: "observe_update tk hrow r zpred ob st = (Inl e, st')"
  shows "UD st' = UD st \<or> (\<exists>k<length (UD st). UD st' ! k ! k < 0)
       \<or> check_PSD (rclimit st) (UdUrcond tk (UD st') (length (UD st))) ''S not PD in observe''
            = Inl e"
proof -
  obtain rcond gain S st1 where o: "observeUD tk st (w st) hrow r = (rcond, gain, S, st1)"
    by (metis prod_cases4)
  from observeUD_frame[of tk st "w st" hrow r] o have lim: "rclimit st1 = rclimit st" by auto
  from f o lim have c: "check_PSD (rclimit st) rcond ''S not PD in observe'' = Inl e"
    and u: "UD st' = UD st1"
    by (auto simp: observe_update_def Let_def split: sum.splits)
  from observeUD_outcome[OF len o] c u show ?thesis by auto
qed

lemma observe_body_factor:
  assumes "body = observe_Linrz_uncorrelated_body tk hm z
         \<or> body = observe_UD_sequential_body tk hs z
         \<or> body = observe_Linear_correlated_body tk"
    and "length (UD st) \<le> length (b st)"
    and "body ob st = (Inl e, st')"
  shows "UD st' = UD st \<or> (\<exists>k<length (UD st). UD st' ! k ! k < 0)
       \<or> check_PSD (rclimit st) (UdUrcond tk (UD st') (length (UD st))) ''S not PD in observe''
            = Inl e"
  using assms
  by (auto simp: observe_Linrz_uncorrelated_body_def observe_UD_sequential_body_def
      observe_Linear_correlated_body_def Let_def
      split: if_splits prod.splits dest!: observe_update_factor[rotated]) blast+

lemma observe_update_length:
  assumes "observe_update tk hrow r zpred ob st = (res, st')"
  shows "length (UD st') = length (UD st) \<and> length (b st') = length (b st)"
proof -
  obtain rcond gain S st1 where o: "observeUD tk st (w st) hrow r = (rcond, gain, S, st1)"
    by (metis prod_cases4)
  from observeUD_length[of tk st "w st" hrow r] o
  have "length (UD st1) = length (UD st) \<and> length (b st1) = length (b st)" by simp
  with assms o show ?thesis
    by (auto simp: observe_update_def Let_def split: sum.splits)
qed

lemma observe_body_length:
  assumes "body = observe_Linrz_uncorrelated_body tk hm z
         \<or> body = observe_UD_sequential_body tk hs z
         \<or> body = observe_Linear_correlated_body tk"
    and "body ob st = (res, st')"
  shows "length (UD st') = length (UD st) \<and> length (b st') = length (b st)"
  using assms
  by (auto simp: observe_Linrz_uncorrelated_body_def observe_UD_sequential_body_def
      observe_Linear_correlated_body_def Let_def
      split: if_splits prod.splits dest!: observe_update_length)

lemma observe_after_length:
  assumes body: "body = observe_Linrz_uncorrelated_body tk hm z
         \<or> body = observe_UD_sequential_body tk hs z
         \<or> body = observe_Linear_correlated_body tk"
    and "observe_after body k st0 = Some (rcs, st)"
  shows "length (UD st) = length (UD st0) \<and> length (b st) = length (b st0)"
  using assms(2)
proof (induction k arbitrary: rcs st)
  case 0
  then show ?case by simp
next
  case (Suc k)
  from Suc.prems obtain rcs' st1 rc where
    a: "observe_after body k st0 = Some (rcs', st1)" and b: "body k st1 = (Inr rc, st)"
    by (auto split: option.splits prod.splits sum.splits)
  from Suc.IH[OF a] observe_body_length[OF body b] show ?case by simp
qed

lemma observe_decorrelate_length:
  "observe_Linear_correlated_decorrelate tk st hl z = (res, st0) \<Longrightarrow>
   UD st0 = UD st \<and> b st0 = b st"
  by (auto simp: observe_Linear_correlated_decorrelate_def Let_def observe_size_def
      split: prod.splits sum.splits if_splits)

text \<open>
  C9. In each of the three looping \<open>observe\<close> variants of a conformant filter: when the
  components before \<open>ob\<close> have been applied, leaving the filter in \<open>st_o\<close>, and the pass
  for component \<open>ob\<close> raises an exception, the whole call ends with that exception. The
  state it leaves is the one the failing pass left, reached from \<open>st_o\<close>: the mean and
  factor carry the updates of the earlier components, the mean has received nothing from
  component \<open>ob\<close>, and no later component is touched. The factor left behind is the one
  the earlier components left, or has a negative entry on its diagonal, or has an rcond
  that the Conditioning Policy has just rejected with this very exception: it is never a
  part-updated factor that passes for a valid one, and the failure is the result of the
  call.
\<close>

theorem observe_partial_application_then_abort:
  assumes variant:
    "(R = observe_Linrz_uncorrelated tk st hm z
        \<and> body = observe_Linrz_uncorrelated_body tk hm z
        \<and> st0 = observe_size st (length z))
     \<or> (R = observe_UD_sequential tk st hs z
        \<and> body = observe_UD_sequential_body tk hs z
        \<and> st0 = observe_size st (length z))
     \<or> (R = observe_Linear_correlated tk st hl z
        \<and> body = observe_Linear_correlated_body tk
        \<and> observe_Linear_correlated_decorrelate tk st hl z = (Inr (), st0))"
    and conf: "conformant st"
    and ob: "ob < length z"
    and earlier: "observe_after body ob st0 = Some (rcs, st_o)"
    and failing: "body ob st_o = (Inl e, st_f)"
  shows "R = (Inl e, st_f) \<and> x st_f = x st_o
       \<and> (UD st_f = UD st_o
          \<or> (\<exists>k<length (UD st_o). UD st_f ! k ! k < 0)
          \<or> check_PSD (rclimit st_o) (UdUrcond tk (UD st_f) (length (UD st_o)))
               ''S not PD in observe'' = Inl e)"
proof (intro conjI)
  show "R = (Inl e, st_f)"
    using observe_variant_loop[OF variant] observe_loop_fail[OF ob earlier failing] by simp
  from variant have body: "body = observe_Linrz_uncorrelated_body tk hm z
         \<or> body = observe_UD_sequential_body tk hs z
         \<or> body = observe_Linear_correlated_body tk"
    by blast
  then show "x st_f = x st_o"
    using failing by (rule observe_body_fail)
  from variant have "length (UD st0) = length (UD st) \<and> length (b st0) = length (b st)"
    by (auto simp: observe_size_def dest: observe_decorrelate_length)
  with observe_after_length[OF body earlier] conf
  have "length (UD st_o) \<le> length (b st_o)"
    by (simp add: conformant_def Let_def)
  with body show "UD st_f = UD st_o
          \<or> (\<exists>k<length (UD st_o). UD st_f ! k ! k < 0)
          \<or> check_PSD (rclimit st_o) (UdUrcond tk (UD st_f) (length (UD st_o)))
               ''S not PD in observe'' = Inl e"
    using failing by (rule observe_body_factor)
qed

lemmas observe_eval = observe_Linrz_uncorrelated_def observe_size_def resize_vec_def
  observe_Linrz_uncorrelated_body_def observe_update_def observeUD_def observeUD_ab_def
  observeUD_b_def observeUD_a_def observeUD_U_def observeUD_sweep.simps mat_set_def check_PSD_def
  add_scaled_def example_toolkit_def example_rcond_def example_filter_def
  example_observe_model_def Let_def eval_nat_numeral

theorem observe_partial_application_then_abort_witness:
  "observe_after (observe_Linrz_uncorrelated_body example_toolkit noiseless_observe_model [1, 2])
       1 (observe_size degenerate_filter (length [1, 2 :: real]))
     = Some ([0], degenerate_filter\<lparr>x := [4 / 5, 0], UD := [[4 / 5, 0, 0], [0, 0, 0]],
               s := [1, 0], Sd := [5, 0], a := [1, 0], b := [4, 0], h1 := [1, 0],
               w := [4 / 5, 0], znorm := [1, 2], last_z_size := 2\<rparr>)
   \<and> observe_Linrz_uncorrelated example_toolkit degenerate_filter noiseless_observe_model [1, 2]
     = (Inl (Numeric_exception ''S not PD in observe''),
        degenerate_filter\<lparr>x := [4 / 5, 0], UD := [[4 / 5, 0, 0], [0, 0, 0]],
               s := [1, 0], Sd := [5, 0], a := [0, 1], b := [0, 0], h1 := [0, 1],
               w := [4 / 5, 0], znorm := [1, 2], last_z_size := 2\<rparr>)
   \<and> x degenerate_filter = [0, 0]
   \<and> conformant degenerate_filter
   \<and> observe_Linrz_uncorrelated example_toolkit singular_filter coupled_observe_model [1, 2]
     = (Inl (Numeric_exception ''S not PD in observe''),
        singular_filter\<lparr>UD := [[1 / 2, 0, 0], [0, - 5, 0]], s := [0, 0], Sd := [0, 0],
               a := [1, 1], b := [1, - 5], h1 := [1, 1], znorm := [1, 2],
               last_z_size := 2\<rparr>)
   \<and> x singular_filter = [0, 0]
   \<and> conformant singular_filter"
proof -
  let ?body = "observe_Linrz_uncorrelated_body example_toolkit noiseless_observe_model [1, 2]"
  let ?st0 = "observe_size degenerate_filter (length [1, 2 :: real])"
  let ?st_o = "degenerate_filter\<lparr>x := [4 / 5, 0], UD := [[4 / 5, 0, 0], [0, 0, 0]],
               s := [1, 0], Sd := [5, 0], a := [1, 0], b := [4, 0], h1 := [1, 0],
               w := [4 / 5, 0], znorm := [1, 2], last_z_size := 2\<rparr>"
  let ?st_f = "degenerate_filter\<lparr>x := [4 / 5, 0], UD := [[4 / 5, 0, 0], [0, 0, 0]],
               s := [1, 0], Sd := [5, 0], a := [0, 1], b := [0, 0], h1 := [0, 1],
               w := [4 / 5, 0], znorm := [1, 2], last_z_size := 2\<rparr>"
  have ob: "1 < length [1, 2 :: real]" by simp
  have conf: "conformant degenerate_filter"
    by (simp add: degenerate_filter_def example_filter_def conformant_def)
  have earlier: "observe_after ?body 1 ?st0 = Some ([0], ?st_o)"
    by (simp add: observe_eval degenerate_filter_def noiseless_observe_model_def)
  have failing: "?body 1 ?st_o = (Inl (Numeric_exception ''S not PD in observe''), ?st_f)"
    by (simp add: observe_eval degenerate_filter_def noiseless_observe_model_def)
  have "observe_Linrz_uncorrelated example_toolkit degenerate_filter noiseless_observe_model [1, 2]
          = (Inl (Numeric_exception ''S not PD in observe''), ?st_f) \<and> x ?st_f = x ?st_o"
    using observe_partial_application_then_abort
        [where tk = example_toolkit and st = degenerate_filter
           and hm = noiseless_observe_model and z = "[1, 2]"
           and R = "observe_Linrz_uncorrelated example_toolkit degenerate_filter
                      noiseless_observe_model [1, 2]",
         OF disjI1 conf ob earlier failing]
    by simp
  moreover
  let ?body2 = "observe_Linrz_uncorrelated_body example_toolkit coupled_observe_model [1, 2]"
  let ?st2 = "observe_size singular_filter (length [1, 2 :: real])"
  let ?st_f2 = "singular_filter\<lparr>UD := [[1 / 2, 0, 0], [0, - 5, 0]], s := [0, 0], Sd := [0, 0],
               a := [1, 1], b := [1, - 5], h1 := [1, 1], znorm := [1, 2],
               last_z_size := 2\<rparr>"
  have ob2: "0 < length [1, 2 :: real]" by simp
  have conf2: "conformant singular_filter"
    by (simp add: singular_filter_def example_filter_def conformant_def)
  have earlier2: "observe_after ?body2 0 ?st2 = Some ([], ?st2)"
    by simp
  have failing2: "?body2 0 ?st2 = (Inl (Numeric_exception ''S not PD in observe''), ?st_f2)"
    by (simp add: observe_eval singular_filter_def coupled_observe_model_def)
  have "observe_Linrz_uncorrelated example_toolkit singular_filter coupled_observe_model [1, 2]
          = (Inl (Numeric_exception ''S not PD in observe''), ?st_f2) \<and> x ?st_f2 = x ?st2"
    using observe_partial_application_then_abort
        [where tk = example_toolkit and st = singular_filter
           and hm = coupled_observe_model and z = "[1, 2]"
           and R = "observe_Linrz_uncorrelated example_toolkit singular_filter
                      coupled_observe_model [1, 2]",
         OF disjI1 conf2 ob2 earlier2 failing2]
    by simp
  ultimately show ?thesis
    using earlier conf conf2
    by (simp add: degenerate_filter_def singular_filter_def example_filter_def)
qed

lemma observe_size_rclimit: "rclimit (observe_size st z_size) = rclimit st"
  by (simp add: observe_size_def)

lemma observe_decorrelate_rclimit:
  "observe_Linear_correlated_decorrelate tk st hl z = (res, st0) \<Longrightarrow> rclimit st0 = rclimit st"
  by (auto simp: observe_Linear_correlated_decorrelate_def Let_def observe_size_rclimit
      split: prod.splits sum.splits if_splits)

lemma observe_after_checked:
  assumes body: "body = observe_Linrz_uncorrelated_body tk hm z
         \<or> body = observe_UD_sequential_body tk hs z
         \<or> body = observe_Linear_correlated_body tk"
    and "observe_after body k st0 = Some (rcs, st)"
  shows "rclimit st = rclimit st0
       \<and> (\<forall>rc\<in>set rcs. check_PSD (rclimit st0) rc ''S not PD in observe'' = Inr ()
             \<and> (\<exists>M n. rc = UdUrcond tk M n))"
  using assms(2)
proof (induction k arbitrary: rcs st)
  case 0
  then show ?case by simp
next
  case (Suc k)
  from Suc.prems obtain rcs' st1 rc where
    a: "observe_after body k st0 = Some (rcs', st1)" and b: "body k st1 = (Inr rc, st)"
    and r: "rcs = rcs' @ [rc]"
    by (auto split: option.splits prod.splits sum.splits)
  from Suc.IH[OF a] observe_body_ok[OF body b] r show ?case by auto
qed

lemma fold_min_Min:
  fixes rcs :: "real list"
  assumes "rcs \<noteq> []" and "\<forall>rc\<in>set rcs. rc \<le> m"
  shows "fold min rcs m = Min (set rcs)"
proof -
  have "fold min rcs m = Min (set (m # rcs))"
    by (simp only: Min.set_eq_fold)
  also have "\<dots> = min m (Min (set rcs))"
    using assms(1) by simp
  also have "\<dots> = Min (set rcs)"
  proof -
    from assms(1) have "Min (set rcs) \<in> set rcs" by (intro Min_in) simp_all
    with assms(2) have "Min (set rcs) \<le> m" by blast
    then show ?thesis by (simp add: min_def)
  qed
  finally show ?thesis .
qed

text \<open>
  C2, amended. In each of the three looping \<open>observe\<close> variants, with every rcond of the
  toolkit at most the largest Float: when the call completes without failure, every
  component has produced an rcond, each of them has passed \<open>check_PSD\<close> with the filter's
  limit, and for a non-empty measurement vector the value returned is the minimum of
  them. For an empty vector it is the largest Float.
\<close>

theorem observe_returns_minimum_rcond:
  assumes variant:
    "(R = observe_Linrz_uncorrelated tk st hm z
        \<and> body = observe_Linrz_uncorrelated_body tk hm z
        \<and> st0 = observe_size st (length z))
     \<or> (R = observe_UD_sequential tk st hs z
        \<and> body = observe_UD_sequential_body tk hs z
        \<and> st0 = observe_size st (length z))
     \<or> (R = observe_Linear_correlated tk st hl z
        \<and> body = observe_Linear_correlated_body tk
        \<and> observe_Linear_correlated_decorrelate tk st hl z = (Inr (), st0))"
    and bound: "\<forall>M n. UdUrcond tk M n \<le> Float_max tk"
    and ok: "R = (Inr r, st')"
  shows "\<exists>rcs. observe_after body (length z) st0 = Some (rcs, st') \<and> length rcs = length z
           \<and> (\<forall>rc\<in>set rcs. check_PSD (rclimit st) rc ''S not PD in observe'' = Inr ())
           \<and> (z \<noteq> [] \<longrightarrow> r = Min (set rcs))
           \<and> (z = [] \<longrightarrow> r = Float_max tk)"
proof -
  from variant have body: "body = observe_Linrz_uncorrelated_body tk hm z
         \<or> body = observe_UD_sequential_body tk hs z
         \<or> body = observe_Linear_correlated_body tk"
    by blast
  from variant have lim: "rclimit st0 = rclimit st"
    by (auto simp: observe_size_rclimit dest: observe_decorrelate_rclimit)
  from observe_variant_loop[OF variant] ok
  have "observe_loop body (length z) 0 (Float_max tk) st0 = (Inr r, st')" by simp
  from observe_loop_ok[OF this] obtain rcs where
    a: "observe_after body (length z) st0 = Some (rcs, st')" and l: "length rcs = length z"
    and r: "r = fold min rcs (Float_max tk)"
    by blast
  from observe_after_checked[OF body a] lim
  have c: "\<forall>rc\<in>set rcs. check_PSD (rclimit st) rc ''S not PD in observe'' = Inr ()"
    and u: "\<forall>rc\<in>set rcs. \<exists>M n. rc = UdUrcond tk M n"
    by auto
  from u bound have le: "\<forall>rc\<in>set rcs. rc \<le> Float_max tk" by auto
  have "z \<noteq> [] \<longrightarrow> r = Min (set rcs)"
    using l le r by (auto intro: fold_min_Min)
  moreover have "z = [] \<longrightarrow> r = Float_max tk"
    using l r by auto
  ultimately show ?thesis
    using a l c by blast
qed

text \<open>
  C2 as stated does not hold for an empty measurement vector: the call completes without
  failure, no scalar update runs, and the value returned is the initial value of
  \<open>rcondmin\<close>, the largest Float, which is the rcond of no sub-update.
\<close>

theorem observe_empty_measurement_counterexample:
  "observe_Linrz_uncorrelated example_toolkit example_filter example_observe_model []
     = (Inr (2 ^ 1024 - 2 ^ 971), example_filter)
   \<and> observe_after (observe_Linrz_uncorrelated_body example_toolkit example_observe_model [])
       (length ([] :: real list)) (observe_size example_filter (length ([] :: real list)))
     = Some ([], example_filter)
   \<and> (2 ^ 1024 - 2 ^ 971 :: real) \<notin> set []"
  by (simp add: observe_Linrz_uncorrelated_def observe_size_def observe_loop.simps
      example_filter_def example_toolkit_def)

lemma example_rcond_le: "UdUrcond example_toolkit M n \<le> Float_max example_toolkit"
proof -
  have "UdUrcond example_toolkit M n \<le> 1"
    by (simp add: example_toolkit_def example_rcond_def Let_def)
  also have "(1::real) \<le> Float_max example_toolkit"
    by (simp add: example_toolkit_def)
  finally show ?thesis .
qed

theorem observe_returns_minimum_rcond_witness:
  "(\<forall>M n. UdUrcond example_toolkit M n \<le> Float_max example_toolkit)
   \<and> fst (observe_Linrz_uncorrelated example_toolkit example_filter reversed_observe_model [1, 2])
       = Inr (1 / 8)
   \<and> observe_after (observe_Linrz_uncorrelated_body example_toolkit reversed_observe_model [1, 2])
       (length [1, 2 :: real]) (observe_size example_filter (length [1, 2 :: real]))
     = Some ([1 / 8, 25 / 41],
             snd (observe_Linrz_uncorrelated example_toolkit example_filter
                    reversed_observe_model [1, 2]))
   \<and> Min (set [1 / 8, 25 / 41 :: real]) = 1 / 8
   \<and> check_PSD (rclimit example_filter) (1 / 8) ''S not PD in observe'' = Inr ()
   \<and> check_PSD (rclimit example_filter) (25 / 41) ''S not PD in observe'' = Inr ()"
proof -
  let ?R = "observe_Linrz_uncorrelated example_toolkit example_filter reversed_observe_model [1, 2]"
  let ?body = "observe_Linrz_uncorrelated_body example_toolkit reversed_observe_model [1, 2]"
  let ?st0 = "observe_size example_filter (length [1, 2 :: real])"
  have bound: "\<forall>M n. UdUrcond example_toolkit M n \<le> Float_max example_toolkit"
    by (simp add: example_rcond_le)
  have rconds: "map_option fst (observe_after ?body (length [1, 2 :: real]) ?st0)
                  = Some [1 / 8, 25 / 41]"
    by (simp add: observe_eval reversed_observe_model_def)
  have res: "fst ?R = Inr (1 / 8)"
    by (simp add: observe_eval observe_loop.simps reversed_observe_model_def)
  then have ok: "?R = (Inr (1 / 8), snd ?R)"
    by (metis prod.collapse)
  have "\<exists>rcs. observe_after ?body (length [1, 2 :: real]) ?st0 = Some (rcs, snd ?R)
           \<and> length rcs = length [1, 2 :: real]
           \<and> (\<forall>rc\<in>set rcs. check_PSD (rclimit example_filter) rc ''S not PD in observe'' = Inr ())
           \<and> ([1, 2 :: real] \<noteq> [] \<longrightarrow> 1 / 8 = Min (set rcs))
           \<and> ([1, 2 :: real] = [] \<longrightarrow> 1 / 8 = Float_max example_toolkit)"
    by (rule observe_returns_minimum_rcond
        [where tk = example_toolkit and st = example_filter and hm = reversed_observe_model
           and z = "[1, 2]", OF disjI1 bound ok]) simp
  then obtain rcs where a: "observe_after ?body (length [1, 2 :: real]) ?st0 = Some (rcs, snd ?R)"
    and c: "\<forall>rc\<in>set rcs. check_PSD (rclimit example_filter) rc ''S not PD in observe'' = Inr ()"
    and m: "1 / 8 = Min (set rcs)"
    by blast
  from a rconds have rcs: "rcs = [1 / 8, 25 / 41]" by simp
  from bound res a c m show ?thesis unfolding rcs by simp
qed

end
